theory Spec2Isabelle
  imports Complex_Main "HOL-Library.Word" "HOL-Library.AList" "HOL-Library.Sublist"
begin

section \<open>JavaScript values used by the pipeline\<close>

text \<open>
  Bytes of a \<^verbatim>\<open>Uint8Array\<close> are 8-bit words. A JavaScript \<^verbatim>\<open>number\<close> that takes part in
  arithmetic is an exact rational here (no rounding, no NaN, no infinity): the only division the
  encoder performs is \<^verbatim>\<open>bitsPerSample / 8\<close>. Lengths and indices are natural numbers.
\<close>

type_synonym byte = "8 word"

text \<open>The integer part of a number, rounding towards zero (the first step of ToUint32/ToUint16).\<close>

definition truncate_number :: "rat \<Rightarrow> int" where
  "truncate_number x = (if x < 0 then - \<lfloor>- x\<rfloor> else \<lfloor>x\<rfloor>)"

definition ToUint32 :: "rat \<Rightarrow> nat" where
  "ToUint32 x = nat (truncate_number x mod 2 ^ 32)"

definition ToUint16 :: "rat \<Rightarrow> nat" where
  "ToUint16 x = nat (truncate_number x mod 2 ^ 16)"

text \<open>Byte \<open>k\<close> (counted from the least significant one) of a non-negative integer.\<close>

definition byteAt :: "nat \<Rightarrow> nat \<Rightarrow> byte" where
  "byteAt n k = word_of_nat (n div 256 ^ k mod 256)"

section \<open>The DataView over the 44-byte header buffer\<close>

text \<open>
  A write of \<open>bs\<close> at byte offset \<open>off\<close>. A DataView raises a RangeError when the write does
  not fit into the buffer: that is \<open>None\<close>.
\<close>

definition storeBytes :: "byte list \<Rightarrow> nat \<Rightarrow> byte list \<Rightarrow> byte list option" where
  "storeBytes buf off bs =
     (if off + length bs \<le> length buf
      then Some (take off buf @ bs @ drop (off + length bs) buf)
      else None)"

definition setUint32 :: "byte list \<Rightarrow> nat \<Rightarrow> rat \<Rightarrow> bool \<Rightarrow> byte list option" where
  "setUint32 buf off v littleEndian =
     (let n = ToUint32 v;
          le = [byteAt n 0, byteAt n 1, byteAt n 2, byteAt n 3]
      in storeBytes buf off (if littleEndian then le else rev le))"

definition setUint16 :: "byte list \<Rightarrow> nat \<Rightarrow> rat \<Rightarrow> bool \<Rightarrow> byte list option" where
  "setUint16 buf off v littleEndian =
     (let n = ToUint16 v;
          le = [byteAt n 0, byteAt n 1]
      in storeBytes buf off (if littleEndian then le else rev le))"

text \<open>
  Reading a header back. The repository only writes WAV headers; the readers below are the
  DataView operations \<^verbatim>\<open>getUint32\<close> and \<^verbatim>\<open>getUint16\<close>, the inverse of the two writers, and
  are what a decoder of the layout uses at the offsets of the layout.
\<close>

fun fromBytesLE :: "byte list \<Rightarrow> nat" where
  "fromBytesLE [] = 0"
| "fromBytesLE (b # bs) = unat b + 256 * fromBytesLE bs"

definition loadBytes :: "byte list \<Rightarrow> nat \<Rightarrow> nat \<Rightarrow> byte list option" where
  "loadBytes buf off n =
     (if off + n \<le> length buf then Some (take n (drop off buf)) else None)"

definition getUint32 :: "byte list \<Rightarrow> nat \<Rightarrow> bool \<Rightarrow> nat option" where
  "getUint32 buf off littleEndian =
     map_option (\<lambda>bs. fromBytesLE (if littleEndian then bs else rev bs)) (loadBytes buf off 4)"

definition getUint16 :: "byte list \<Rightarrow> nat \<Rightarrow> bool \<Rightarrow> nat option" where
  "getUint16 buf off littleEndian =
     map_option (\<lambda>bs. fromBytesLE (if littleEndian then bs else rev bs)) (loadBytes buf off 2)"

section \<open>The audio encoder: \<^verbatim>\<open>pcmToWav\<close>\<close>

record Blob =
  blobBytes :: "byte list"
  blobType :: string

definition SAMPLE_RATE :: rat where
  "SAMPLE_RATE = 24000"

text \<open>
  \<^verbatim>\<open>new Blob([view, pcmData], { type: 'audio/wav' })\<close>: the 44 bytes of the view followed by the
  samples. \<open>None\<close> is a RangeError of one of the writes.
\<close>

definition pcmToWav :: "byte list \<Rightarrow> rat \<Rightarrow> rat \<Rightarrow> rat \<Rightarrow> Blob option" where
  "pcmToWav pcmData sampleRate numChannels bitsPerSample =
     (let byteRate = sampleRate * numChannels * (bitsPerSample / 8);
          blockAlign = numChannels * (bitsPerSample / 8);
          dataSize = (of_nat (length pcmData) :: rat);
          fileSize = 36 + dataSize
      in Option.bind (setUint32 (replicate 44 0) 0 0x52494646 False) (\<lambda>view.
         Option.bind (setUint32 view 4 fileSize True) (\<lambda>view.
         Option.bind (setUint32 view 8 0x57415645 False) (\<lambda>view.
         Option.bind (setUint32 view 12 0x666d7420 False) (\<lambda>view.
         Option.bind (setUint32 view 16 16 True) (\<lambda>view.
         Option.bind (setUint16 view 20 1 True) (\<lambda>view.
         Option.bind (setUint16 view 22 numChannels True) (\<lambda>view.
         Option.bind (setUint32 view 24 sampleRate True) (\<lambda>view.
         Option.bind (setUint32 view 28 byteRate True) (\<lambda>view.
         Option.bind (setUint16 view 32 blockAlign True) (\<lambda>view.
         Option.bind (setUint16 view 34 bitsPerSample True) (\<lambda>view.
         Option.bind (setUint32 view 36 0x64617461 False) (\<lambda>view.
         Option.bind (setUint32 view 40 dataSize True) (\<lambda>view.
         Some \<lparr>blobBytes = view @ pcmData, blobType = ''audio/wav''\<rparr>))))))))))))))"

text \<open>
  Modelled from the spec: the repository has no WAV reader. \<open>decodeWavHeader\<close> reads the 44
  header bytes field by field at the offsets and with the endianness of the layout table of the
  audio encoder (tags as four bytes each, sizes and rates little-endian).
\<close>

record WavHeader =
  riffTag :: "byte list"
  fileSize :: nat
  waveTag :: "byte list"
  fmtTag :: "byte list"
  fmtSize :: nat
  audioFormat :: nat
  numChannels :: nat
  sampleRate :: nat
  byteRate :: nat
  blockAlign :: nat
  bitsPerSample :: nat
  dataTag :: "byte list"
  dataSize :: nat

definition decodeWavHeader :: "byte list \<Rightarrow> WavHeader option" where
  "decodeWavHeader hdr =
     Option.bind (loadBytes hdr 0 4) (\<lambda>t0.
     Option.bind (getUint32 hdr 4 True) (\<lambda>fsz.
     Option.bind (loadBytes hdr 8 4) (\<lambda>t8.
     Option.bind (loadBytes hdr 12 4) (\<lambda>t12.
     Option.bind (getUint32 hdr 16 True) (\<lambda>csz.
     Option.bind (getUint16 hdr 20 True) (\<lambda>fmt.
     Option.bind (getUint16 hdr 22 True) (\<lambda>ch.
     Option.bind (getUint32 hdr 24 True) (\<lambda>sr.
     Option.bind (getUint32 hdr 28 True) (\<lambda>br.
     Option.bind (getUint16 hdr 32 True) (\<lambda>ba.
     Option.bind (getUint16 hdr 34 True) (\<lambda>bps.
     Option.bind (loadBytes hdr 36 4) (\<lambda>t36.
     Option.bind (getUint32 hdr 40 True) (\<lambda>dsz.
     Some \<lparr>riffTag = t0, fileSize = fsz, waveTag = t8, fmtTag = t12, fmtSize = csz,
       audioFormat = fmt, numChannels = ch, sampleRate = sr, byteRate = br, blockAlign = ba,
       bitsPerSample = bps, dataTag = t36, dataSize = dsz\<rparr>)))))))))))))"

text \<open>The ASCII bytes of a tag, and the two size fields of an encoded file.\<close>

definition ascii :: "string \<Rightarrow> byte list" where
  "ascii s = map (\<lambda>c. word_of_nat (of_char c)) s"

definition fileSizeField :: "Blob \<Rightarrow> nat option" where
  "fileSizeField blob = getUint32 (take 44 (blobBytes blob)) 4 True"

definition dataSizeField :: "Blob \<Rightarrow> nat option" where
  "dataSizeField blob = getUint32 (take 44 (blobBytes blob)) 40 True"

section \<open>Strings\<close>

text \<open>
  Strings are lists of characters. Case mapping and trimming cover the ASCII range: the letters
  \<open>A\<close> to \<open>Z\<close> and the white space characters tab, line feed, vertical tab, form feed,
  carriage return and space.
\<close>

definition toLowerCaseChar :: "char \<Rightarrow> char" where
  "toLowerCaseChar c =
     (case map_of (zip ''ABCDEFGHIJKLMNOPQRSTUVWXYZ'' ''abcdefghijklmnopqrstuvwxyz'') c of
        Some d \<Rightarrow> d | None \<Rightarrow> c)"

definition toUpperCaseChar :: "char \<Rightarrow> char" where
  "toUpperCaseChar c =
     (case map_of (zip ''abcdefghijklmnopqrstuvwxyz'' ''ABCDEFGHIJKLMNOPQRSTUVWXYZ'') c of
        Some d \<Rightarrow> d | None \<Rightarrow> c)"

definition toLowerCase :: "string \<Rightarrow> string" where
  "toLowerCase s = map toLowerCaseChar s"

definition toUpperCase :: "string \<Rightarrow> string" where
  "toUpperCase s = map toUpperCaseChar s"

definition isWhiteSpace :: "char \<Rightarrow> bool" where
  "isWhiteSpace c = (c \<in> set [CHR 0x09, CHR 0x0A, CHR 0x0B, CHR 0x0C, CHR 0x0D, CHR 0x20])"

definition trim :: "string \<Rightarrow> string" where
  "trim s = rev (dropWhile isWhiteSpace (rev (dropWhile isWhiteSpace s)))"

text \<open>An optional string is truthy when it is present and not empty.\<close>

definition truthy :: "string option \<Rightarrow> bool" where
  "truthy c = (case c of None \<Rightarrow> False | Some s \<Rightarrow> s \<noteq> [])"

text \<open>\<^verbatim>\<open>c || ''\<close>\<close>

definition orEmpty :: "string option \<Rightarrow> string" where
  "orEmpty c = (case c of None \<Rightarrow> [] | Some s \<Rightarrow> s)"

text \<open>\<^verbatim>\<open>Array.prototype.pop\<close> on a fresh array: its last element, if it has one.\<close>

definition pop :: "'a list \<Rightarrow> 'a option" where
  "pop xs = (if xs = [] then None else Some (last xs))"

section \<open>Plain objects used as dictionaries\<close>

text \<open>
  \<^verbatim>\<open>characterVoices\<close>, \<^verbatim>\<open>assignedGenders\<close> and \<^verbatim>\<open>characterImages\<close> are object literals
  \<^verbatim>\<open>{}\<close> indexed by character names. Reading a key that the object does not own falls through
  to \<^verbatim>\<open>Object.prototype\<close>, whose members (functions, and the prototype object itself for
  \<^verbatim>\<open>__proto__\<close>) are all truthy and none of them a string.
\<close>

definition objectPrototypeKeys :: "string list" where
  "objectPrototypeKeys =
     [''constructor'', ''hasOwnProperty'', ''isPrototypeOf'', ''propertyIsEnumerable'',
      ''toLocaleString'', ''toString'', ''valueOf'', ''__proto__'',
      ''__defineGetter__'', ''__defineSetter__'', ''__lookupGetter__'', ''__lookupSetter__'']"

datatype 'a property = Own 'a | Inherited | Undefined

definition getProperty :: "(string \<rightharpoonup> 'a) \<Rightarrow> string \<Rightarrow> 'a property" where
  "getProperty obj k =
     (case obj k of
        Some v \<Rightarrow> Own v
      | None \<Rightarrow> if k \<in> set objectPrototypeKeys then Inherited else Undefined)"

section \<open>The script model\<close>

text \<open>
  An element of a dialogue block is \<^verbatim>\<open>{type: 'parenthetical' | 'dialogue', content}\<close>. A scene
  element carries an optional \<^verbatim>\<open>content\<close>; a dialogue block carries its \<^verbatim>\<open>character\<close> and
  \<^verbatim>\<open>elements\<close> (its own optional \<^verbatim>\<open>content\<close> is never read by the pipeline and is left out).
\<close>

datatype BlockElement = Parenthetical string | Dialogue string

datatype SceneElement =
    SceneHeading "string option"
  | Action "string option"
  | DialogueBlock string "BlockElement list"
  | Transition "string option"

record Script =
  source_file :: string
  title :: string
  scene_elements :: "SceneElement list"

fun elementContent :: "BlockElement \<Rightarrow> string" where
  "elementContent (Parenthetical c) = c"
| "elementContent (Dialogue c) = c"

fun isDialogue :: "BlockElement \<Rightarrow> bool" where
  "isDialogue (Dialogue c) = True"
| "isDialogue (Parenthetical c) = False"

fun isParenthetical :: "BlockElement \<Rightarrow> bool" where
  "isParenthetical (Parenthetical c) = True"
| "isParenthetical (Dialogue c) = False"

fun isAction :: "SceneElement \<Rightarrow> bool" where
  "isAction (Action c) = True"
| "isAction e = False"

fun isDialogueBlock :: "SceneElement \<Rightarrow> bool" where
  "isDialogueBlock (DialogueBlock c es) = True"
| "isDialogueBlock e = False"

fun content :: "SceneElement \<Rightarrow> string option" where
  "content (SceneHeading c) = c"
| "content (Action c) = c"
| "content (Transition c) = c"
| "content (DialogueBlock c es) = None"

text \<open>\<^verbatim>\<open>character\<close> and \<^verbatim>\<open>elements\<close> are read from dialogue blocks only.\<close>

fun character :: "SceneElement \<Rightarrow> string" where
  "character (DialogueBlock c es) = c"
| "character e = []"

fun elements :: "SceneElement \<Rightarrow> BlockElement list" where
  "elements (DialogueBlock c es) = es"
| "elements e = []"

record StoryElements =
  characters :: string
  story :: string
  today :: string

record Indexed =
  sceneIndex :: nat

record GeneratedImage = Indexed +
  imageUrl :: string

record GeneratedAudio = Indexed +
  audioBlob :: Blob
  duration :: rat
  audioCharacter :: string
  dialogue :: string

record CharacterImage =
  mimeType :: string
  base64 :: string

section \<open>The generative services\<close>

text \<open>
  The language, image and speech models, the regular-expression engine and \<^verbatim>\<open>atob\<close> are
  outside the repository: they are parameters. A model is asked once per loop iteration, so its
  answer may depend on the iteration \<open>i\<close> as well as on the request. \<open>Inl\<close> carries the message
  of a thrown error.
  \<^item> \<open>promptModel i prompt\<close>: the trimmed text is the image prompt; \<open>None\<close> is any failure.
  \<^item> \<open>imageModel i inline prompt\<close>: the base64 image, \<open>inline\<close> the optional reference image.
  \<^item> \<open>speechModel i prompt voice\<close>: the audio payload of the first candidate, if any.
  \<^item> \<open>storyModel prompt\<close>: the parsed script.
  \<^item> \<open>regExpMatch source subject\<close>: \<^verbatim>\<open>subject.match(new RegExp(source, 'i'))\<close> reduced to its
    first capture group; \<open>Inl\<close> when the source is not a regular expression.
  \<^item> \<open>atob s\<close>: the character codes of the decoded binary string.
\<close>

record Services =
  promptModel :: "nat \<Rightarrow> string \<Rightarrow> string option"
  imageModel :: "nat \<Rightarrow> (string \<times> string) option \<Rightarrow> string \<Rightarrow> string + string"
  speechModel :: "nat \<Rightarrow> string \<Rightarrow> string property \<Rightarrow> string + string option"
  storyModel :: "string \<Rightarrow> string + Script"
  regExpMatch :: "string \<Rightarrow> string \<Rightarrow> string + string option"
  atob :: "string \<Rightarrow> string + nat list"

text \<open>The requests the pipeline sends, in the order it sends them.\<close>

datatype Call =
    CreateImagePrompt string string
  | GenerateImage string "string option" "string option"
  | GenerateSpeech string "string property"

text \<open>
  \<^verbatim>\<open>createImagePromptFromAction\<close>: the model's trimmed answer, or \<^verbatim>\<open>`${character} ${action}`\<close>
  when the request fails. \<open>imagePromptRequest\<close> stands for the fixed instruction text around the
  two interpolated values.
\<close>

definition imagePromptRequest :: "string \<Rightarrow> string \<Rightarrow> string" where
  "imagePromptRequest chr action =
     ''**Character:** '' @ chr @ ''\<newline>**Action:** \"'' @ action @ ''\"''"

definition createImagePromptFromAction :: "Services \<Rightarrow> nat \<Rightarrow> string \<Rightarrow> string \<Rightarrow> string" where
  "createImagePromptFromAction sv i chr action =
     (case promptModel sv i (imagePromptRequest chr action) of
        Some t \<Rightarrow> trim t
      | None \<Rightarrow> chr @ '' '' @ action)"

text \<open>
  \<^verbatim>\<open>generateImage\<close>: the reference image is sent when both its payload and MIME type are
  truthy; every failure is rethrown with the prompt in its message.
\<close>

definition generateImage ::
  "Services \<Rightarrow> nat \<Rightarrow> string \<Rightarrow> string option \<Rightarrow> string option \<Rightarrow> string + string" where
  "generateImage sv i prompt characterImageBase64 mimeType' =
     (let inline = (if truthy characterImageBase64 \<and> truthy mimeType'
                    then Some (orEmpty characterImageBase64, orEmpty mimeType') else None)
      in case imageModel sv i inline (prompt @ ''. Cinematic, 16:9 aspect ratio.'') of
           Inr d \<Rightarrow> Inr d
         | Inl errorMessage \<Rightarrow>
             Inl (''Failed to generate image for prompt: \"'' @ prompt @ ''\". Reason: ''
                  @ errorMessage))"

text \<open>
  \<^verbatim>\<open>generateSpeech\<close>: a missing payload and every other failure are rethrown with the text in
  the message.
\<close>

definition generateSpeech :: "Services \<Rightarrow> nat \<Rightarrow> string \<Rightarrow> string property \<Rightarrow> string + string" where
  "generateSpeech sv i txt voiceName =
     (case speechModel sv i txt voiceName of
        Inr (Some audioData) \<Rightarrow>
          if audioData = [] then Inl (''Failed to generate speech for text: \"'' @ txt @ ''\"'')
          else Inr audioData
      | Inr None \<Rightarrow> Inl (''Failed to generate speech for text: \"'' @ txt @ ''\"'')
      | Inl e \<Rightarrow> Inl (''Failed to generate speech for text: \"'' @ txt @ ''\"''))"

section \<open>Speaker attribution and the image stage\<close>

definition unknownSpeaker :: string where
  "unknownSpeaker = ''A character''"

text \<open>The action beats with their positions: \<^verbatim>\<open>map((el, index) => ...).filter(...)\<close>.\<close>

definition scenesWithAction :: "SceneElement list \<Rightarrow> (nat \<times> SceneElement) list" where
  "scenesWithAction els =
     filter (\<lambda>(index, el). isAction el \<and> truthy (content el)) (enumerate 0 els)"

text \<open>
  The speaker of the action at \<open>sceneIndex\<close>: the last dialogue block of
  \<^verbatim>\<open>scene_elements.slice(0, sceneIndex)\<close>, or else the value carried over.
\<close>

definition resolveSpeaker :: "SceneElement list \<Rightarrow> nat \<Rightarrow> string \<Rightarrow> string" where
  "resolveSpeaker els sceneIndex' lastCharacter =
     (let precedingElements = take sceneIndex' els;
          lastDialogue = pop (filter isDialogueBlock precedingElements)
      in case lastDialogue of Some d \<Rightarrow> character d | None \<Rightarrow> lastCharacter)"

text \<open>
  The loop over the action beats. It carries the iteration \<open>i\<close>, \<^verbatim>\<open>lastCharacter\<close>, the images
  pushed so far and the requests sent so far; a failed image request ends the stage.
\<close>

primrec imageLoop ::
  "Services \<Rightarrow> (string \<rightharpoonup> CharacterImage) \<Rightarrow> SceneElement list \<Rightarrow> (nat \<times> SceneElement) list
     \<Rightarrow> nat \<Rightarrow> string \<Rightarrow> GeneratedImage list \<Rightarrow> Call list
     \<Rightarrow> Call list \<times> (string + GeneratedImage list)" where
  "imageLoop sv characterImages els [] i lastCharacter images calls = (calls, Inr images)"
| "imageLoop sv characterImages els (scene # rest) i lastCharacter images calls =
     (let sceneIndex' = fst scene;
          actionElement = snd scene;
          lastCharacter = resolveSpeaker els sceneIndex' lastCharacter;
          characterImage = getProperty characterImages (trim (toLowerCase lastCharacter));
          action = orEmpty (content actionElement);
          imagePromptText = createImagePromptFromAction sv i lastCharacter action;
          finalImagePrompt =
            (if characterImage \<noteq> Undefined
             then ''Use the character from the input image. Place them in this scene, ''
                  @ ''matching the existing art style: '' @ imagePromptText
             else imagePromptText);
          b64 = (case characterImage of Own ci \<Rightarrow> Some (base64 ci) | _ \<Rightarrow> None);
          mt = (case characterImage of Own ci \<Rightarrow> Some (mimeType ci) | _ \<Rightarrow> None);
          calls = calls @ [CreateImagePrompt lastCharacter action,
                           GenerateImage finalImagePrompt b64 mt]
      in case generateImage sv i finalImagePrompt b64 mt of
           Inl e \<Rightarrow> (calls, Inl e)
         | Inr imageBase64 \<Rightarrow>
             imageLoop sv characterImages els rest (Suc i) lastCharacter
               (images @ [\<lparr>sceneIndex = sceneIndex',
                            imageUrl = ''data:image/png;base64,'' @ imageBase64\<rparr>])
               calls)"

definition imageStage ::
  "Services \<Rightarrow> (string \<rightharpoonup> CharacterImage) \<Rightarrow> SceneElement list
     \<Rightarrow> Call list \<times> (string + GeneratedImage list)" where
  "imageStage sv characterImages els =
     imageLoop sv characterImages els (scenesWithAction els) 0 unknownSpeaker [] []"

text \<open>The speakers handed to the prompt writer, in request order.\<close>

fun promptSpeakers :: "Call list \<Rightarrow> string list" where
  "promptSpeakers [] = []"
| "promptSpeakers (CreateImagePrompt c a # cs) = c # promptSpeakers cs"
| "promptSpeakers (x # cs) = promptSpeakers cs"

text \<open>
  The attribution as the specification words it: the character of the nearest dialogue block
  before position \<open>i\<close>, or the unknown speaker when there is none.
\<close>

definition nearestSpeaker :: "SceneElement list \<Rightarrow> nat \<Rightarrow> string" where
  "nearestSpeaker els i =
     (case filter isDialogueBlock (take i els) of
        [] \<Rightarrow> unknownSpeaker
      | d # ds \<Rightarrow> character (last (d # ds)))"

text \<open>The positions of the action elements with non-empty content.\<close>

definition actionIndices :: "SceneElement list \<Rightarrow> nat list" where
  "actionIndices els = filter (\<lambda>i. isAction (els ! i) \<and> truthy (content (els ! i))) [0..<length els]"

section \<open>Voice assignment\<close>

definition MALE_VOICES :: "string list" where
  "MALE_VOICES = [''Puck'', ''Charon'', ''Fenrir'', ''Zephyr'']"

definition FEMALE_VOICES :: "string list" where
  "FEMALE_VOICES = [''Kore'']"

datatype Gender = Male | Female

text \<open>The dialogue blocks with their positions.\<close>

definition dialogueBlocks :: "SceneElement list \<Rightarrow> (nat \<times> SceneElement) list" where
  "dialogueBlocks els = filter (\<lambda>(index, el). isDialogueBlock el) (enumerate 0 els)"

text \<open>The four variables the \<^verbatim>\<open>forEach\<close> callback updates.\<close>

record VoiceTable =
  characterVoices :: "string \<rightharpoonup> string"
  assignedGenders :: "string \<rightharpoonup> Gender"
  maleVoiceIndex :: nat
  femaleVoiceIndex :: nat

definition emptyVoiceTable :: VoiceTable where
  "emptyVoiceTable =
     \<lparr>characterVoices = Map.empty, assignedGenders = Map.empty,
      maleVoiceIndex = 0, femaleVoiceIndex = 0\<rparr>"

text \<open>Truthiness of what a read of the two tables returns.\<close>

fun truthyVoice :: "string property \<Rightarrow> bool" where
  "truthyVoice (Own v) = (v \<noteq> [])"
| "truthyVoice Inherited = True"
| "truthyVoice Undefined = False"

fun truthyGender :: "Gender property \<Rightarrow> bool" where
  "truthyGender (Own g) = True"
| "truthyGender Inherited = True"
| "truthyGender Undefined = False"

text \<open>
  The source text of the regular expression: the character name is spliced in as it is,
  between \<^verbatim>\<open>\b\<close> and \<^verbatim>\<open>\b\s*\((m|f)\)\<close>.
\<close>

definition genderRegexSource :: "string \<Rightarrow> string" where
  "genderRegexSource characterName =
     [CHR 0x5C] @ ''b'' @ characterName @ [CHR 0x5C] @ ''b'' @ [CHR 0x5C] @ ''s*''
       @ [CHR 0x5C] @ ''((m|f)'' @ [CHR 0x5C] @ '')''"

text \<open>The body of the \<^verbatim>\<open>forEach\<close> callback for one dialogue block.\<close>

definition assignVoice :: "Services \<Rightarrow> StoryElements \<Rightarrow> VoiceTable \<Rightarrow> SceneElement \<Rightarrow> string + VoiceTable" where
  "assignVoice sv storyElements t el =
     (let characterName = character el in
      if \<not> truthyVoice (getProperty (characterVoices t) characterName) then
        (case (if \<not> truthyGender (getProperty (assignedGenders t) characterName)
               then (case regExpMatch sv (genderRegexSource characterName)
                            (characters storyElements) of
                       Inl e \<Rightarrow> Inl e
                     | Inr None \<Rightarrow> Inr t
                     | Inr (Some m1) \<Rightarrow>
                         Inr (t\<lparr>assignedGenders := (assignedGenders t)
                                (characterName \<mapsto>
                                   (if toLowerCase m1 = ''m'' then Male else Female))\<rparr>))
               else Inr t) of
           Inl e \<Rightarrow> Inl e
         | Inr t \<Rightarrow>
             (let gender = getProperty (assignedGenders t) characterName in
              if gender = Own Female \<and> length FEMALE_VOICES > 0
              then Inr (t\<lparr>characterVoices := (characterVoices t)
                           (characterName \<mapsto>
                              FEMALE_VOICES ! (femaleVoiceIndex t mod length FEMALE_VOICES)),
                         femaleVoiceIndex := femaleVoiceIndex t + 1\<rparr>)
              else Inr (t\<lparr>characterVoices := (characterVoices t)
                           (characterName \<mapsto>
                              MALE_VOICES ! (maleVoiceIndex t mod length MALE_VOICES)),
                         maleVoiceIndex := maleVoiceIndex t + 1\<rparr>)))
      else Inr t)"

primrec assignVoices ::
  "Services \<Rightarrow> StoryElements \<Rightarrow> (nat \<times> SceneElement) list \<Rightarrow> VoiceTable \<Rightarrow> string + VoiceTable" where
  "assignVoices sv storyElements [] t = Inr t"
| "assignVoices sv storyElements (b # rest) t =
     (case assignVoice sv storyElements t (snd b) of
        Inl e \<Rightarrow> Inl e
      | Inr t' \<Rightarrow> assignVoices sv storyElements rest t')"

definition voiceAssignment :: "Services \<Rightarrow> StoryElements \<Rightarrow> SceneElement list \<Rightarrow> string + VoiceTable" where
  "voiceAssignment sv storyElements els =
     assignVoices sv storyElements (dialogueBlocks els) emptyVoiceTable"

text \<open>The distinct elements of a list in the order of their first occurrence.\<close>

primrec firstSeen :: "'a list \<Rightarrow> 'a list" where
  "firstSeen [] = []"
| "firstSeen (x # xs) = x # filter (\<lambda>y. y \<noteq> x) (firstSeen xs)"

section \<open>The speech stage\<close>

text \<open>\<^verbatim>\<open>decode\<close>: the character codes of \<^verbatim>\<open>atob(base64)\<close> stored into a \<^verbatim>\<open>Uint8Array\<close>.\<close>

definition decode :: "Services \<Rightarrow> string \<Rightarrow> string + byte list" where
  "decode sv b64 =
     (case atob sv b64 of
        Inl e \<Rightarrow> Inl e
      | Inr binaryString \<Rightarrow> Inr (map word_of_nat binaryString))"

text \<open>\<^verbatim>\<open>el.elements.find(e => e.type === 'dialogue')?.content || ''\<close>\<close>

definition dialogueText :: "SceneElement \<Rightarrow> string" where
  "dialogueText el = orEmpty (map_option elementContent (find isDialogue (elements el)))"

definition promptText :: "SceneElement \<Rightarrow> string" where
  "promptText el =
     (let parenthetical = map_option elementContent (find isParenthetical (elements el))
      in if truthy parenthetical
         then ''(speaking in a '' @ orEmpty parenthetical @ '' tone) '' @ dialogueText el
         else dialogueText el)"

text \<open>
  The loop over the dialogue blocks, with the iteration \<open>i\<close>, the clips pushed so far and the
  requests sent so far. A block without dialogue text is passed over; a failed request, a
  payload that does not decode and a failed header write end the stage.
\<close>

primrec speechLoop ::
  "Services \<Rightarrow> (string \<rightharpoonup> string) \<Rightarrow> (nat \<times> SceneElement) list \<Rightarrow> nat \<Rightarrow> GeneratedAudio list
     \<Rightarrow> Call list \<Rightarrow> Call list \<times> (string + GeneratedAudio list)" where
  "speechLoop sv voices [] i audioClips calls = (calls, Inr audioClips)"
| "speechLoop sv voices (b # rest) i audioClips calls =
     (let index = fst b;
          el = snd b
      in if dialogueText el = [] then speechLoop sv voices rest (Suc i) audioClips calls
         else
           (let voice = getProperty voices (character el);
                calls = calls @ [GenerateSpeech (promptText el) voice]
            in case generateSpeech sv i (promptText el) voice of
                 Inl e \<Rightarrow> (calls, Inl e)
               | Inr audioBase64 \<Rightarrow>
                   (case decode sv audioBase64 of
                      Inl e \<Rightarrow> (calls, Inl e)
                    | Inr pcmData \<Rightarrow>
                        (case pcmToWav pcmData SAMPLE_RATE 1 16 of
                           None \<Rightarrow> (calls, Inl ''RangeError'')
                         | Some blob \<Rightarrow>
                             speechLoop sv voices rest (Suc i)
                               (audioClips @
                                  [\<lparr>sceneIndex = index, audioBlob = blob,
                                    duration = of_nat (length pcmData) / (SAMPLE_RATE * 2),
                                    audioCharacter = character el,
                                    dialogue = dialogueText el\<rparr>])
                               calls))))"

definition speechStage ::
  "Services \<Rightarrow> (string \<rightharpoonup> string) \<Rightarrow> SceneElement list
     \<Rightarrow> Call list \<times> (string + GeneratedAudio list)" where
  "speechStage sv voices els = speechLoop sv voices (dialogueBlocks els) 0 [] []"

text \<open>The dialogue blocks that have dialogue text, with their positions.\<close>

definition spoken :: "nat \<times> SceneElement \<Rightarrow> bool" where
  "spoken b = (dialogueText (snd b) \<noteq> [])"

definition spokenBlocks :: "SceneElement list \<Rightarrow> (nat \<times> SceneElement) list" where
  "spokenBlocks els = filter spoken (dialogueBlocks els)"

definition spokenIndices :: "SceneElement list \<Rightarrow> nat list" where
  "spokenIndices els =
     filter (\<lambda>i. isDialogueBlock (els ! i) \<and> dialogueText (els ! i) \<noteq> []) [0..<length els]"

text \<open>
  Every request for a block with dialogue text is answered and its payload decodes; \<open>i\<close> is the
  iteration of the first block of \<open>bs\<close>. Nothing is asked of the blocks without dialogue text.
\<close>

definition answered :: "Services \<Rightarrow> (string \<rightharpoonup> string) \<Rightarrow> nat \<Rightarrow> (nat \<times> SceneElement) list \<Rightarrow> bool" where
  "answered sv voices i bs =
     (\<forall>k < length bs. spoken (bs ! k) \<longrightarrow>
        (\<exists>payload pcm.
           generateSpeech sv (i + k) (promptText (snd (bs ! k)))
             (getProperty voices (character (snd (bs ! k)))) = Inr payload
           \<and> decode sv payload = Inr pcm))"

text \<open>The texts sent to speech synthesis, in request order.\<close>

fun speechTexts :: "Call list \<Rightarrow> string list" where
  "speechTexts [] = []"
| "speechTexts (GenerateSpeech t v # cs) = t # speechTexts cs"
| "speechTexts (x # cs) = speechTexts cs"

text \<open>A dialogue block cut down to its elements up to the first dialogue line, followed by
  the parentheticals after it.\<close>

primrec upToFirstDialogue :: "BlockElement list \<Rightarrow> BlockElement list" where
  "upToFirstDialogue [] = []"
| "upToFirstDialogue (e # es) =
     (if isDialogue e then e # filter isParenthetical es else e # upToFirstDialogue es)"

fun firstDialogueOnly :: "SceneElement \<Rightarrow> SceneElement" where
  "firstDialogueOnly (DialogueBlock c es) = DialogueBlock c (upToFirstDialogue es)"
| "firstDialogueOnly e = e"

section \<open>A generation run\<close>

text \<open>
  \<^verbatim>\<open>generateStory\<close>: every failure is rethrown with one fixed message.
  \<open>constructFinalPrompt\<close> splices the premise and the user's event into the instruction text.
\<close>

definition generateStory :: "Services \<Rightarrow> string \<Rightarrow> string + Script" where
  "generateStory sv finalPrompt =
     (case storyModel sv finalPrompt of
        Inr script \<Rightarrow> Inr script
      | Inl e \<Rightarrow> Inl (''Could not generate a story. The model might have returned an ''
                       @ ''invalid response or malformed JSON.''))"

definition constructFinalPrompt :: "StoryElements \<Rightarrow> string \<Rightarrow> string" where
  "constructFinalPrompt storyElements inspirationalEvent =
     ''You are a creative writer for a sci-fi comedy series. Your task is to write a new ''
     @ ''short movie script based on a series premise and a user-provided event.''
     @ ''\<newline>\<newline>**Series Premise:**\<newline>---\<newline>**Characters:**\<newline>''
     @ characters storyElements
     @ ''\<newline>\<newline>**Core Story:**\<newline>'' @ story storyElements
     @ ''\<newline>\<newline>**Daily Theme:**\<newline>'' @ today storyElements
     @ ''\<newline>---\<newline>\<newline>**Inspirational Event (Provided by User):**\<newline>---\<newline>''
     @ inspirationalEvent
     @ ''\<newline>---\<newline>\<newline>Weave the essence of this user-provided event into your story. ''
     @ ''It should serve as the central conflict or comedic situation for the episode. ''
     @ ''How would the characters from your Series Premise react to or cause a situation ''
     @ ''like this?\<newline>\<newline>The final output must be a creative and engaging movie ''
     @ ''script. Return ONLY the JSON object conforming to the provided schema. Do not ''
     @ ''include any markdown formatting or any other text outside the JSON structure.\<newline>''"

record AppState =
  errorMessage :: "string option"
  scriptData :: "Script option"
  generatedImages :: "GeneratedImage list"
  generatedAudio :: "GeneratedAudio list"

text \<open>
  \<^verbatim>\<open>handleGenerate\<close>: the two guards, the reset of the state, then the script, the image stage,
  the voice assignment and the speech stage in this order; the first thrown error ends the run
  and is stored as the error message.
\<close>

definition handleGenerate ::
  "Services \<Rightarrow> string \<Rightarrow> StoryElements option \<Rightarrow> (string \<rightharpoonup> CharacterImage) \<Rightarrow> AppState \<Rightarrow> AppState" where
  "handleGenerate sv userInput storyElements characterImages st =
     (if trim userInput = []
      then st\<lparr>errorMessage := Some ''Please provide a story idea to get started.''\<rparr>
      else case storyElements of
        None \<Rightarrow> st\<lparr>errorMessage := Some ''Story premise not loaded. Please fetch it first.''\<rparr>
      | Some se \<Rightarrow>
          (let st = st\<lparr>errorMessage := None, scriptData := None, generatedImages := [],
                       generatedAudio := []\<rparr>;
               finalPrompt = constructFinalPrompt se userInput
           in case generateStory sv finalPrompt of
                Inl e \<Rightarrow> st\<lparr>errorMessage := Some e\<rparr>
              | Inr script \<Rightarrow>
                  (let st = st\<lparr>scriptData := Some script\<rparr>;
                       els = scene_elements script
                   in case snd (imageStage sv characterImages els) of
                        Inl e \<Rightarrow> st\<lparr>errorMessage := Some e\<rparr>
                      | Inr images \<Rightarrow>
                          (let st = st\<lparr>generatedImages := images\<rparr>
                           in case voiceAssignment sv se els of
                                Inl e \<Rightarrow> st\<lparr>errorMessage := Some e\<rparr>
                              | Inr t \<Rightarrow>
                                  (case snd (speechStage sv (characterVoices t) els) of
                                     Inl e \<Rightarrow> st\<lparr>errorMessage := Some e\<rparr>
                                   | Inr audioClips \<Rightarrow>
                                       st\<lparr>generatedAudio := audioClips\<rparr>)))))"

section \<open>The asset bundler\<close>

text \<open>\<^verbatim>\<open>String(n)\<close> for a non-negative integer below \<open>10^21\<close>: its decimal digits.\<close>

definition digitChar :: "nat \<Rightarrow> char" where
  "digitChar d = ''0123456789'' ! d"

fun decimal :: "nat \<Rightarrow> string" where
  "decimal n = (if n < 10 then [digitChar n] else decimal (n div 10) @ [digitChar (n mod 10)])"

text \<open>\<^verbatim>\<open>String.prototype.padStart\<close>: the pad string is repeated and cut to the missing length.\<close>

definition padStart :: "nat \<Rightarrow> string \<Rightarrow> string \<Rightarrow> string" where
  "padStart targetLength padString s =
     (if length s \<ge> targetLength \<or> padString = [] then s
      else take (targetLength - length s)
             (concat (replicate (targetLength - length s) padString)) @ s)"

definition entryName :: "nat \<Rightarrow> string \<Rightarrow> string" where
  "entryName idx ext = padStart 4 ''0'' (decimal idx) @ ext"

text \<open>
  The archive under construction: its entries in insertion order, a later entry of the same
  name replacing the earlier one. \<^verbatim>\<open>zip.folder(name)\<close> adds the entry \<^verbatim>\<open>name/\<close> and prefixes
  the names of the files put into it.
\<close>

datatype ZipData =
    Folder
  | Text string
  | Base64 "string option"
  | Binary Blob

type_synonym Zip = "(string \<times> ZipData) list"

definition zipFile :: "Zip \<Rightarrow> string \<Rightarrow> ZipData \<Rightarrow> Zip" where
  "zipFile z name d = AList.update name d z"

definition zipFolder :: "Zip \<Rightarrow> string \<Rightarrow> Zip" where
  "zipFolder z name = zipFile z (name @ ''/'') Folder"

text \<open>\<^verbatim>\<open>imageUrl.split(',')[1]\<close>: the text between the first and the second comma, if any.\<close>

definition splitComma1 :: "string \<Rightarrow> string option" where
  "splitComma1 s =
     (case dropWhile (\<lambda>c. c \<noteq> CHR '','') s of
        [] \<Rightarrow> None
      | c # r \<Rightarrow> Some (takeWhile (\<lambda>c. c \<noteq> CHR '','') r))"

text \<open>\<^verbatim>\<open>scriptToText\<close>; a missing \<^verbatim>\<open>content\<close> prints as \<^verbatim>\<open>undefined\<close>.\<close>

definition templateString :: "string option \<Rightarrow> string" where
  "templateString c = (case c of None \<Rightarrow> ''undefined'' | Some s \<Rightarrow> s)"

fun sceneText :: "SceneElement \<Rightarrow> string" where
  "sceneText (SceneHeading c) = templateString c @ ''\<newline>\<newline>''"
| "sceneText (Action c) = templateString c @ ''\<newline>\<newline>''"
| "sceneText (Transition c) = templateString c @ ''\<newline>\<newline>''"
| "sceneText (DialogueBlock c es) =
     [CHR 0x09] @ toUpperCase c @ ''\<newline>''
     @ concat (map (\<lambda>diag. if isParenthetical diag
                             then [CHR 0x09] @ ''('' @ elementContent diag @ '')\<newline>''
                             else [CHR 0x09] @ elementContent diag @ ''\<newline>'') es)
     @ ''\<newline>''"

definition scriptToText :: "Script \<Rightarrow> string" where
  "scriptToText script =
     ''Title: '' @ title script @ ''\<newline>\<newline>'' @ concat (map sceneText (scene_elements script))"

text \<open>The two loops of \<^verbatim>\<open>handleDownloadZip\<close>.\<close>

primrec addImages :: "Zip \<Rightarrow> GeneratedImage list \<Rightarrow> Zip" where
  "addImages z [] = z"
| "addImages z (img # rest) =
     addImages (zipFile z (''images/'' @ entryName (sceneIndex img) ''.png'')
                  (Base64 (splitComma1 (imageUrl img)))) rest"

primrec addAudio :: "Zip \<Rightarrow> GeneratedAudio list \<Rightarrow> Zip" where
  "addAudio z [] = z"
| "addAudio z (audio # rest) =
     addAudio (zipFile z (''audio/'' @ entryName (sceneIndex audio) ''.wav'')
                 (Binary (audioBlob audio))) rest"

text \<open>
  The entries of the archive. \<open>stringify\<close> is \<^verbatim>\<open>JSON.stringify(scriptData, null, 2)\<close>, a
  parameter.
\<close>

definition buildZip ::
  "(Script \<Rightarrow> string) \<Rightarrow> Script \<Rightarrow> GeneratedImage list \<Rightarrow> GeneratedAudio list \<Rightarrow> Zip" where
  "buildZip stringify script images audioClips =
     (let zip = zipFile [] ''script.json'' (Text (stringify script));
          zip = zipFile zip ''story.txt'' (Text (scriptToText script));
          zip = zipFolder zip ''images'';
          zip = addImages zip images;
          zip = zipFolder zip ''audio'';
          zip = (if length audioClips > 0 then addAudio zip audioClips else zip)
      in zip)"

definition isAlphaNumeric :: "char \<Rightarrow> bool" where
  "isAlphaNumeric c =
     (c \<in> set ''abcdefghijklmnopqrstuvwxyzABCDEFGHIJKLMNOPQRSTUVWXYZ0123456789'')"

definition safeTitle :: "string \<Rightarrow> string" where
  "safeTitle t = toLowerCase (map (\<lambda>c. if isAlphaNumeric c then c else CHR ''_'') t)"

text \<open>
  \<^verbatim>\<open>handleDownloadZip\<close>: nothing happens without a script; otherwise the archive is built and
  generated (\<open>generateAsync\<close>, a parameter: \<open>Some\<close> is the message of its failure) and offered
  for download under the name derived from the title.
\<close>

datatype Download = Downloaded string Zip | Failed string

definition handleDownloadZip ::
  "(Script \<Rightarrow> string) \<Rightarrow> (Zip \<Rightarrow> string option) \<Rightarrow> Script option \<Rightarrow> GeneratedImage list
     \<Rightarrow> GeneratedAudio list \<Rightarrow> Download option" where
  "handleDownloadZip stringify generateAsync scriptData' images audioClips =
     (case scriptData' of
        None \<Rightarrow> None
      | Some script \<Rightarrow>
          (let zip = buildZip stringify script images audioClips
           in case generateAsync zip of
                Some e \<Rightarrow> Some (Failed (''Failed to create zip file: '' @ e))
              | None \<Rightarrow> Some (Downloaded (safeTitle (title script) @ ''_assets.zip'') zip)))"

section \<open>Fetching the premise\<close>

text \<open>
  \<^verbatim>\<open>getDailyVariable\<close>: \<open>now\<close> is the time value of \<^verbatim>\<open>new Date()\<close>, in milliseconds since the
  epoch (a Thursday); eight hours are subtracted before the day of the week is read.
\<close>

definition dayMap :: "(string \<times> string) list" where
  "dayMap = [(''Sunday'', ''28''), (''Monday'', ''27''), (''Tuesday'', ''21''),
     (''Wednesday'', ''22''), (''Thursday'', ''18''), (''Friday'', ''24''), (''Saturday'', ''25'')]"

definition dayNames :: "string list" where
  "dayNames = [''Sunday'', ''Monday'', ''Tuesday'', ''Wednesday'', ''Thursday'', ''Friday'',
     ''Saturday'']"

definition getUTCDay :: "int \<Rightarrow> nat" where
  "getUTCDay t = nat ((t div 86400000 + 4) mod 7)"

definition getDailyVariable :: "int \<Rightarrow> string" where
  "getDailyVariable now =
     (let pstDate = now - 8 * 60 * 60 * 1000;
          dayIndex = getUTCDay pstDate
      in case map_of dayMap (dayNames ! dayIndex) of
           Some v \<Rightarrow> if v = [] then ''22'' else v
         | None \<Rightarrow> ''22'')"

text \<open>
  What the browser provides to \<^verbatim>\<open>fetchDescriptionFromRSS\<close>: \<^verbatim>\<open>fetch\<close> (rejected with a message,
  or fulfilled with a response whose body may fail to be read), the XML parser (the text of
  the \<^verbatim>\<open>parsererror\<close> element if there is one, and for each \<^verbatim>\<open>item\<close> element the text content
  of its \<^verbatim>\<open>description\<close> element if it has one), and the text of a \<^verbatim>\<open>div\<close> whose
  \<^verbatim>\<open>innerHTML\<close> was set to a string.
\<close>

record Response =
  ok :: bool
  status :: nat
  responseText :: "string + string"

record XmlDocument =
  parsererror :: "string option"
  items :: "string option list"

record FeedServices =
  fetch :: "string \<Rightarrow> string + Response"
  parseFromString :: "string \<Rightarrow> XmlDocument"
  divTextContent :: "string \<Rightarrow> string"

definition CORS_PROXY :: string where
  "CORS_PROXY = ''https://api.allorigins.win/raw?url=''"

text \<open>
  \<^verbatim>\<open>encodeURIComponent\<close> on the ASCII range: letters, digits and \<^verbatim>\<open>- _ . ! ~ * ' ( )\<close> are
  kept, every other character becomes \<^verbatim>\<open>%\<close> and two upper-case hexadecimal digits.
\<close>

definition isUnreserved :: "char \<Rightarrow> bool" where
  "isUnreserved c = (isAlphaNumeric c \<or> c \<in> set (''-_.!~*()'' @ [CHR 0x27]))"

definition hexDigit :: "nat \<Rightarrow> char" where
  "hexDigit d = ''0123456789ABCDEF'' ! d"

definition encodeURIComponent :: "string \<Rightarrow> string" where
  "encodeURIComponent s =
     concat (map (\<lambda>c. if isUnreserved c then [c]
                       else [CHR ''%'', hexDigit (of_char c div 16), hexDigit (of_char c mod 16)]) s)"

text \<open>The loop over the items: the first description that yields a usable seed.\<close>

primrec findSeed :: "FeedServices \<Rightarrow> string option list \<Rightarrow> string option" where
  "findSeed fs [] = None"
| "findSeed fs (description # rest) =
     (case description of
        None \<Rightarrow> findSeed fs rest
      | Some htmlContent \<Rightarrow>
          if htmlContent = [] then findSeed fs rest
          else (let potentialSeed = trim (divTextContent fs htmlContent);
                    isURL = (prefix ''http://'' potentialSeed \<or> prefix ''https://'' potentialSeed)
                in if potentialSeed \<noteq> [] \<and> \<not> isURL \<and> length potentialSeed > 20
                   then Some potentialSeed
                   else findSeed fs rest))"

text \<open>The body of the \<^verbatim>\<open>try\<close> block of \<^verbatim>\<open>fetchDescriptionFromRSS\<close>, with the error it throws.\<close>

definition fetchDescriptionTry :: "FeedServices \<Rightarrow> string \<Rightarrow> string + string" where
  "fetchDescriptionTry fs url =
     (case fetch fs (CORS_PROXY @ encodeURIComponent url) of
        Inl e \<Rightarrow> Inl e
      | Inr response \<Rightarrow>
          if \<not> ok response
          then Inl (''Network response was not ok, status: '' @ decimal (status response))
          else case responseText response of
            Inl e \<Rightarrow> Inl e
          | Inr xmlText \<Rightarrow>
              (let xmlDoc = parseFromString fs xmlText
               in if parsererror xmlDoc \<noteq> None then Inl ''Failed to parse the RSS feed XML.''
                  else if items xmlDoc = [] then Inl ''No <item> elements found in the RSS feed.''
                  else case findSeed fs (items xmlDoc) of
                    Some seed \<Rightarrow> Inr seed
                  | None \<Rightarrow> Inl ''No valid story seed found in any of the RSS items.''))"

text \<open>The message of the error that the \<^verbatim>\<open>catch\<close> block throws, whatever it caught.\<close>

definition unavailableMessage :: "string \<Rightarrow> string" where
  "unavailableMessage url =
     ''Could not fetch or parse from '' @ url @ ''. The source might be unavailable or blocked.''"

definition fetchDescriptionFromRSS :: "FeedServices \<Rightarrow> string \<Rightarrow> string + string" where
  "fetchDescriptionFromRSS fs url =
     (case fetchDescriptionTry fs url of
        Inr seed \<Rightarrow> Inr seed
      | Inl error \<Rightarrow> Inl (unavailableMessage url))"

definition feedNames :: "string list" where
  "feedNames = [''characters'', ''story'', ''today'']"

text \<open>The URL of a feed; \<open>x\<close> is the value of \<^verbatim>\<open>getDailyVariable()\<close>.\<close>

definition feedUrl :: "string \<Rightarrow> string \<Rightarrow> string" where
  "feedUrl x name =
     ''https://www.htmlcommentbox.com/rss_clean?page=https%3A%2F%2Fvgy.rf.gd%2F'' @ x
     @ ''%2F%3Fi%3D'' @ name @ ''&opts=16798&mod=$1$wq1rdBcg$ir4fsMQfu76bjx/maFJMv/''"

text \<open>\<^verbatim>\<open>feedName.charAt(0).toUpperCase() + feedName.slice(1)\<close>\<close>

definition capitalize :: "string \<Rightarrow> string" where
  "capitalize s = toUpperCase (take 1 s) @ drop 1 s"

definition failedFeedEntry :: "string \<Rightarrow> string \<Rightarrow> string" where
  "failedFeedEntry feedName reason = '''' @ [CHR 0x27] @ capitalize feedName @ [CHR 0x27] @ '' feed: '' @ reason"

text \<open>\<^verbatim>\<open>Array.prototype.join\<close>\<close>

fun join :: "string \<Rightarrow> string list \<Rightarrow> string" where
  "join sep [] = []"
| "join sep [s] = s"
| "join sep (s # t # ss) = s @ sep @ join sep (t # ss)"

text \<open>
  The \<^verbatim>\<open>forEach\<close> over the settled results: the values of the fulfilled feeds and the entries
  of the rejected ones, in feed order.
\<close>

primrec collectFeeds ::
  "(string \<times> (string + string)) list \<Rightarrow> (string \<rightharpoonup> string) \<Rightarrow> string list
     \<Rightarrow> (string \<rightharpoonup> string) \<times> string list" where
  "collectFeeds [] successfulResults failedFeeds = (successfulResults, failedFeeds)"
| "collectFeeds (r # rest) successfulResults failedFeeds =
     (case snd r of
        Inr v \<Rightarrow> collectFeeds rest (successfulResults(fst r \<mapsto> v)) failedFeeds
      | Inl reason \<Rightarrow>
          collectFeeds rest successfulResults (failedFeeds @ [failedFeedEntry (fst r) reason]))"

definition detailedErrorMessage :: "string list \<Rightarrow> string" where
  "detailedErrorMessage failedFeeds =
     ''Could not fetch all story elements. Please check your connection or ''
     @ ''try again later. \<newline>\<newline>Failed feeds:\<newline>- '' @ join ''\<newline>- '' failedFeeds"

text \<open>
  \<^verbatim>\<open>fetchStoryElements\<close>: every feed is fetched with \<open>fetchDescriptionFromRSS\<close> and all three
  are awaited before the outcome is decided; a rejected feed carries the message of its
  rejection. The result object is read as a \<open>StoryElements\<close> record (a key it lacks would read
  as the empty string).
\<close>

definition fetchStoryElements :: "FeedServices \<Rightarrow> int \<Rightarrow> string + StoryElements" where
  "fetchStoryElements fs now =
     (let x = getDailyVariable now;
          results = map (\<lambda>name. fetchDescriptionFromRSS fs (feedUrl x name)) feedNames;
          collected = collectFeeds (zip feedNames results) Map.empty [];
          successfulResults = fst collected;
          failedFeeds = snd collected
      in if length failedFeeds > 0
         then Inl (detailedErrorMessage failedFeeds)
         else Inr \<lparr>characters = orEmpty (successfulResults ''characters''),
                    story = orEmpty (successfulResults ''story''),
                    today = orEmpty (successfulResults ''today'')\<rparr>)"

text \<open>
  The feeds that fail, in feed order, and whether a text occurs in a message
  (\<^verbatim>\<open>String.prototype.includes\<close>).
\<close>

definition failingFeeds :: "FeedServices \<Rightarrow> int \<Rightarrow> string list" where
  "failingFeeds fs now =
     filter (\<lambda>name. isl (fetchDescriptionFromRSS fs (feedUrl (getDailyVariable now) name)))
       feedNames"

primrec occursIn :: "string \<Rightarrow> string \<Rightarrow> bool" where
  "occursIn sub [] = (sub = [])"
| "occursIn sub (c # s) = (prefix sub (c # s) \<or> occursIn sub s)"

section \<open>A base64 decoder and the services of the worked scenarios\<close>

text \<open>
  \<^verbatim>\<open>atob\<close> as browsers implement it (forgiving base64): white space is dropped, up to two
  padding characters are removed from input whose length is a multiple of four, a remainder
  of one character or a character outside the alphabet is an error, and left-over bits are
  discarded.
\<close>

definition base64Alphabet :: string where
  "base64Alphabet = ''ABCDEFGHIJKLMNOPQRSTUVWXYZabcdefghijklmnopqrstuvwxyz0123456789+/''"

primrec indexOf :: "'a list \<Rightarrow> 'a \<Rightarrow> nat option" where
  "indexOf [] c = None"
| "indexOf (x # xs) c = (if x = c then Some 0 else map_option Suc (indexOf xs c))"

fun decodeSextets :: "nat list \<Rightarrow> nat list" where
  "decodeSextets (a # b # c # d # r) =
     (a * 4 + b div 16) # (b mod 16 * 16 + c div 4) # (c mod 4 * 64 + d) # decodeSextets r"
| "decodeSextets [a, b, c] = [a * 4 + b div 16, b mod 16 * 16 + c div 4]"
| "decodeSextets [a, b] = [a * 4 + b div 16]"
| "decodeSextets r = []"

definition stripPadding :: "string \<Rightarrow> string" where
  "stripPadding s =
     (if length s mod 4 = 0
      then (if 2 \<le> length s \<and> drop (length s - 2) s = ''==''
            then take (length s - 2) s
            else if 1 \<le> length s \<and> drop (length s - 1) s = ''=''
            then take (length s - 1) s
            else s)
      else s)"

definition isAsciiWhitespace :: "char \<Rightarrow> bool" where
  "isAsciiWhitespace c = (c \<in> set [CHR 0x09, CHR 0x0A, CHR 0x0C, CHR 0x0D, CHR 0x20])"

definition atobForgiving :: "string \<Rightarrow> string + nat list" where
  "atobForgiving s =
     (let d = stripPadding (filter (\<lambda>c. \<not> isAsciiWhitespace c) s)
      in if length d mod 4 = 1 then Inl ''InvalidCharacterError''
         else case those (map (indexOf base64Alphabet) d) of
                None \<Rightarrow> Inl ''InvalidCharacterError''
              | Some sextets \<Rightarrow> Inr (decodeSextets sextets))"

text \<open>
  Two scripts: an action before any dialogue, a dialogue block of URSULA and a second action;
  and a script of two actions and no dialogue.
\<close>

definition ursulaScene :: "SceneElement list" where
  "ursulaScene =
     [Action (Some ''A saucer lands.''),
      DialogueBlock ''URSULA'' [Parenthetical ''cheerful'', Dialogue ''Hello.''],
      Action (Some ''She waves.'')]"

definition silentScene :: "SceneElement list" where
  "silentScene = [Action (Some ''A saucer lands.''), Transition (Some ''CUT TO:''),
      Action (Some ''It leaves.'')]"

definition ursulaScript :: Script where
  "ursulaScript =
     \<lparr>source_file = ''generated'', title = ''Saucer Day!'', scene_elements = ursulaScene\<rparr>"

text \<open>
  A script of four dialogue blocks: the second has no dialogue line, the third an empty one,
  the fourth two dialogue lines.
\<close>

definition pauseScene :: "SceneElement list" where
  "pauseScene =
     [DialogueBlock ''URSULA'' [Dialogue ''Hello.''],
      DialogueBlock ''REX'' [Parenthetical ''silent''],
      DialogueBlock ''REX'' [Dialogue []],
      DialogueBlock ''URSULA'' [Dialogue ''Bye.'', Parenthetical ''sad'', Dialogue ''Really.'']]"

definition ursulaPremise :: StoryElements where
  "ursulaPremise = \<lparr>characters = ''URSULA (f)'', story = [], today = []\<rparr>"

text \<open>
  Services for the worked scenarios: the story model returns the script of URSULA, prompt
  writing fails (the fallback prompt is used), every image request returns the same image,
  every speech request returns the four zero bytes \<^verbatim>\<open>AAAAAA==\<close>, and the only gender marker
  the premise search finds is the one of URSULA in the premise text \<^verbatim>\<open>URSULA (f)\<close>.
\<close>

definition scenarioServices :: Services where
  "scenarioServices =
     \<lparr>promptModel = (\<lambda>i p. None),
      imageModel = (\<lambda>i inline p. Inr ''iVBORw0KGgo=''),
      speechModel = (\<lambda>i t v. Inr (Some ''AAAAAA=='')),
      storyModel = (\<lambda>p. Inr ursulaScript),
      regExpMatch = (\<lambda>source subject.
         if source = genderRegexSource ''URSULA'' \<and> subject = ''URSULA (f)''
         then Inr (Some ''f'') else Inr None),
      atob = atobForgiving\<rparr>"

text \<open>The same services with a speech model that returns the single byte \<^verbatim>\<open>AA==\<close>.\<close>

definition oddPayloadServices :: Services where
  "oddPayloadServices = scenarioServices\<lparr>speechModel := (\<lambda>i t v. Inr (Some ''AA==''))\<rparr>"

text \<open>The sample bytes of a clip: what follows the 44 bytes of the header.\<close>

definition sampleBytes :: "GeneratedAudio \<Rightarrow> byte list" where
  "sampleBytes clip = drop 44 (blobBytes (audioBlob clip))"

text \<open>
  The state before the first run, and the relation between the two asset lists and the stored
  script that every run keeps: a list is empty or holds, in order, one entry per action with
  non-empty content (per dialogue block with dialogue text) at that element's position.
\<close>

definition initialState :: AppState where
  "initialState =
     \<lparr>errorMessage = None, scriptData = None, generatedImages = [], generatedAudio = []\<rparr>"

definition indicesOk :: "AppState \<Rightarrow> bool" where
  "indicesOk st =
     (case scriptData st of
        None \<Rightarrow> generatedImages st = [] \<and> generatedAudio st = []
      | Some script \<Rightarrow>
          (generatedImages st = []
             \<or> map sceneIndex (generatedImages st) = actionIndices (scene_elements script))
          \<and> (generatedAudio st = []
             \<or> (map sceneIndex (generatedAudio st) = spokenIndices (scene_elements script)
                \<and> map audioCharacter (generatedAudio st)
                    = map (\<lambda>i. character (scene_elements script ! i))
                        (spokenIndices (scene_elements script)))))"

text \<open>
  Browser services for the worked scenario of a partial failure: the requests for the feeds
  of characters and story are answered with a feed of one item, the request for the feed of
  today (on a Wednesday, Pacific time) is answered with the HTTP status 503.
\<close>

definition feedXml :: string where
  "feedXml = ''<rss><channel><item><description>A saucer crew looks for a parking space.''
     @ ''</description></item></channel></rss>''"

definition todayUnavailable :: FeedServices where
  "todayUnavailable =
     \<lparr>fetch = (\<lambda>url.
        if url = CORS_PROXY @ encodeURIComponent (feedUrl ''22'' ''today'')
        then Inr \<lparr>ok = False, status = 503, responseText = Inr ''Service Unavailable''\<rparr>
        else Inr \<lparr>ok = True, status = 200, responseText = Inr feedXml\<rparr>),
      parseFromString = (\<lambda>xmlText.
        \<lparr>parsererror = None, items = [Some ''A saucer crew looks for a parking space.'']\<rparr>),
      divTextContent = (\<lambda>htmlContent. htmlContent)\<rparr>"

text \<open>The number a string of decimal digits stands for (other characters count as 0).\<close>

definition digitValue :: "char \<Rightarrow> nat" where
  "digitValue c = (case indexOf ''0123456789'' c of Some d \<Rightarrow> d | None \<Rightarrow> 0)"

definition parseDecimal :: "string \<Rightarrow> nat" where
  "parseDecimal s = foldl (\<lambda>acc c. 10 * acc + digitValue c) 0 s"

text \<open>
  Three images in an order that is not the order of their scene indices, a serializer and an
  archive generator that does not fail.
\<close>

definition shuffledImages :: "GeneratedImage list" where
  "shuffledImages =
     [\<lparr>sceneIndex = 137, imageUrl = ''data:image/png;base64,iVBORw0KGgo=''\<rparr>,
      \<lparr>sceneIndex = 0, imageUrl = ''data:image/png;base64,iVBORw0KGgo=''\<rparr>,
      \<lparr>sceneIndex = 12, imageUrl = ''data:image/png;base64,iVBORw0KGgo=''\<rparr>]"

definition stringifyStub :: "Script \<Rightarrow> string" where
  "stringifyStub script = ''{}''"

definition generateAsyncOk :: "Zip \<Rightarrow> string option" where
  "generateAsyncOk archive = None"

text \<open>
  The table after the names \<open>seen\<close> have been processed, when none of them had a gender
  marker: the \<open>k\<close>-th distinct name holds the \<open>k\<close>-th male voice, counted round the pool.
\<close>

definition maleOnly :: "VoiceTable \<Rightarrow> string list \<Rightarrow> bool" where
  "maleOnly t seen =
     (assignedGenders t = Map.empty
      \<and> femaleVoiceIndex t = 0
      \<and> maleVoiceIndex t = length (firstSeen seen)
      \<and> characterVoices t =
          (\<lambda>n. map_option (\<lambda>k. MALE_VOICES ! (k mod length MALE_VOICES))
                 (indexOf (firstSeen seen) n)))"

section \<open>Properties of the encoder\<close>

lemma ToUint32_of_nat: "ToUint32 (of_nat n) = n mod 2 ^ 32"
proof -
  have "int n mod 2 ^ 32 = int (n mod 2 ^ 32)" by (simp add: zmod_int)
  then show ?thesis by (simp add: ToUint32_def truncate_number_def)
qed

lemma ToUint32_add_of_nat: "ToUint32 (36 + of_nat n) = (36 + n) mod 2 ^ 32"
  using ToUint32_of_nat [of "36 + n"] by simp

lemma ToUint32_numeral: "ToUint32 (numeral k) = numeral k mod 2 ^ 32"
  using ToUint32_of_nat [of "numeral k"] by simp

lemma ToUint16_of_nat: "ToUint16 (of_nat n) = n mod 2 ^ 16"
proof -
  have "int n mod 2 ^ 16 = int (n mod 2 ^ 16)" by (simp add: zmod_int)
  then show ?thesis by (simp add: ToUint16_def truncate_number_def)
qed

lemma ToUint16_numeral: "ToUint16 (numeral k) = numeral k mod 2 ^ 16"
  using ToUint16_of_nat [of "numeral k"] by simp

lemma ToUint16_one: "ToUint16 1 = 1"
  by (simp add: ToUint16_def truncate_number_def)

lemma unat_byteAt: "unat (byteAt n k) = n div 256 ^ k mod 256"
  by (simp add: byteAt_def unat_of_nat)

lemma split4:
  "(n::nat) mod 256 + 256 * (n div 256 mod 256 + 256 * (n div 65536 mod 256
     + 256 * (n div 16777216 mod 256))) = n mod 4294967296"
proof -
  have a: "n mod 4294967296 = 256 * (n div 256 mod 16777216) + n mod 256"
    using mod_mult2_eq [of n 256 16777216] by simp
  have b: "n div 256 mod 16777216 = 256 * (n div 256 div 256 mod 65536) + n div 256 mod 256"
    using mod_mult2_eq [of "n div 256" 256 65536] by simp
  have c: "n div 65536 mod 65536 = 256 * (n div 65536 div 256 mod 256) + n div 65536 mod 256"
    using mod_mult2_eq [of "n div 65536" 256 256] by simp
  have d: "n div 256 div 256 = n div 65536" "n div 65536 div 256 = n div 16777216"
    by (simp_all add: div_mult2_eq [symmetric])
  show ?thesis using a b c d by simp
qed

lemma fromBytesLE_32:
  "fromBytesLE [byteAt n 0, byteAt n 1, byteAt n 2, byteAt n 3] = n mod 2 ^ 32"
  using split4 [of n] by (simp add: unat_byteAt)

lemma split2: "(n::nat) mod 256 + 256 * (n div 256 mod 256) = n mod 65536"
  using mod_mult2_eq [of n 256 256] by simp

lemma fromBytesLE_16: "fromBytesLE [byteAt n 0, byteAt n 1] = n mod 2 ^ 16"
  using split2 [of n] by (simp add: unat_byteAt)

lemma replicate_44:
  "replicate 44 x = [x,x,x,x,x,x,x,x,x,x,x, x,x,x,x,x,x,x,x,x,x,x, x,x,x,x,x,x,x,x,x,x,x,
     x,x,x,x,x,x,x,x,x,x,x]"
  by (simp add: eval_nat_numeral)

lemma byteAt_numeral: "byteAt (numeral n) k = word_of_nat (numeral n div 256 ^ k mod 256)"
  by (simp add: byteAt_def)

lemma byteAt_Suc_0: "byteAt (Suc 0) k = word_of_nat (1 div 256 ^ k mod 256)"
  by (simp add: byteAt_def)

lemmas encoder_simps = pcmToWav_def Let_def setUint32_def setUint16_def storeBytes_def
  replicate_44 ToUint32_numeral ToUint16_numeral ToUint16_one ToUint32_add_of_nat
  ToUint32_of_nat byteAt_numeral byteAt_Suc_0 SAMPLE_RATE_def

text \<open>
  The bytes of every encoded clip, with no bound on the payload: the two size fields hold the
  low 32 bits of \<open>36 + N\<close> and of \<open>N\<close>.
\<close>

lemma pcmToWav_layout:
  "pcmToWav pcmData SAMPLE_RATE 1 16 =
     Some \<lparr>blobBytes =
       [0x52, 0x49, 0x46, 0x46,
        byteAt ((36 + length pcmData) mod 2 ^ 32) 0, byteAt ((36 + length pcmData) mod 2 ^ 32) 1,
        byteAt ((36 + length pcmData) mod 2 ^ 32) 2, byteAt ((36 + length pcmData) mod 2 ^ 32) 3,
        0x57, 0x41, 0x56, 0x45,
        0x66, 0x6d, 0x74, 0x20,
        16, 0, 0, 0,
        1, 0,
        1, 0,
        0xC0, 0x5D, 0, 0,
        0x80, 0xBB, 0, 0,
        2, 0,
        16, 0,
        0x64, 0x61, 0x74, 0x61,
        byteAt (length pcmData mod 2 ^ 32) 0, byteAt (length pcmData mod 2 ^ 32) 1,
        byteAt (length pcmData mod 2 ^ 32) 2, byteAt (length pcmData mod 2 ^ 32) 3] @ pcmData,
       blobType = ''audio/wav''\<rparr>"
  by (simp add: encoder_simps)

lemmas decoder_simps = decodeWavHeader_def getUint32_def getUint16_def loadBytes_def

lemma decodeWavHeader_layout:
  "decodeWavHeader
       [0x52, 0x49, 0x46, 0x46,
        byteAt m 0, byteAt m 1, byteAt m 2, byteAt m 3,
        0x57, 0x41, 0x56, 0x45,
        0x66, 0x6d, 0x74, 0x20,
        16, 0, 0, 0,
        1, 0,
        1, 0,
        0xC0, 0x5D, 0, 0,
        0x80, 0xBB, 0, 0,
        2, 0,
        16, 0,
        0x64, 0x61, 0x74, 0x61,
        byteAt n 0, byteAt n 1, byteAt n 2, byteAt n 3] =
     Some \<lparr>riffTag = ascii ''RIFF'', fileSize = m mod 2 ^ 32, waveTag = ascii ''WAVE'',
       fmtTag = ascii ''fmt '', fmtSize = 16, audioFormat = 1, numChannels = 1,
       sampleRate = 24000, byteRate = 48000, blockAlign = 2, bitsPerSample = 16,
       dataTag = ascii ''data'', dataSize = n mod 2 ^ 32\<rparr>"
  using split4 [of m] split4 [of n]
  by (simp add: decoder_simps unat_byteAt ascii_def)

lemma fromBytesLE_32_Suc:
  "fromBytesLE [byteAt n 0, byteAt n (Suc 0), byteAt n 2, byteAt n 3] = n mod 4294967296"
  using fromBytesLE_32 [of n] by simp

lemma fileSizeField_pcmToWav:
  "Option.bind (pcmToWav pcmData SAMPLE_RATE 1 16) fileSizeField
     = Some ((36 + length pcmData) mod 2 ^ 32)"
  by (simp add: pcmToWav_layout fileSizeField_def getUint32_def loadBytes_def
      fromBytesLE_32_Suc del: fromBytesLE.simps)

text \<open>
  C1 (as amended). For every buffer of \<open>N\<close> bytes with \<open>36 + N < 2^32\<close>, encoding at 24000 Hz,
  mono, 16 bits gives a 44-byte header followed by the payload unchanged; read back at the
  offsets of the layout, the header holds \<open>RIFF\<close>, fileSize \<open>36 + N\<close>, \<open>WAVE\<close>, \<open>fmt \<close>, chunk
  size 16, format 1, one channel, sample rate 24000, byte rate 48000 = 24000 * 1 * 16/8, block
  align 2 = 1 * 16/8, 16 bits per sample, \<open>data\<close> and dataSize \<open>N\<close>.
\<close>

theorem pcmToWav_header_roundtrip:
  assumes "36 + length pcmData < 2 ^ 32"
  shows "\<exists>hdr. pcmToWav pcmData SAMPLE_RATE 1 16
             = Some \<lparr>blobBytes = hdr @ pcmData, blobType = ''audio/wav''\<rparr>
           \<and> length hdr = 44
           \<and> decodeWavHeader hdr =
               Some \<lparr>riffTag = ascii ''RIFF'', fileSize = 36 + length pcmData,
                 waveTag = ascii ''WAVE'', fmtTag = ascii ''fmt '', fmtSize = 16,
                 audioFormat = 1, numChannels = 1, sampleRate = 24000, byteRate = 48000,
                 blockAlign = 2, bitsPerSample = 16, dataTag = ascii ''data'',
                 dataSize = length pcmData\<rparr>"
proof -
  let ?m = "(36 + length pcmData) mod 2 ^ 32" and ?n = "length pcmData mod 2 ^ 32"
  let ?hdr = "[0x52, 0x49, 0x46, 0x46,
        byteAt ?m 0, byteAt ?m 1, byteAt ?m 2, byteAt ?m 3,
        0x57, 0x41, 0x56, 0x45,
        0x66, 0x6d, 0x74, 0x20,
        16, 0, 0, 0,
        1, 0,
        1, 0,
        0xC0, 0x5D, 0, 0,
        0x80, 0xBB, 0, 0,
        2, 0,
        16, 0,
        0x64, 0x61, 0x74, 0x61,
        byteAt ?n 0, byteAt ?n 1, byteAt ?n 2, byteAt ?n 3 :: byte]"
  from assms have m: "?m = 36 + length pcmData" and n: "?n = length pcmData"
    by simp_all
  have "pcmToWav pcmData SAMPLE_RATE 1 16
          = Some \<lparr>blobBytes = ?hdr @ pcmData, blobType = ''audio/wav''\<rparr>"
    by (rule pcmToWav_layout)
  moreover have "length ?hdr = 44" by simp
  moreover have "decodeWavHeader ?hdr =
      Some \<lparr>riffTag = ascii ''RIFF'', fileSize = 36 + length pcmData,
        waveTag = ascii ''WAVE'', fmtTag = ascii ''fmt '', fmtSize = 16,
        audioFormat = 1, numChannels = 1, sampleRate = 24000, byteRate = 48000,
        blockAlign = 2, bitsPerSample = 16, dataTag = ascii ''data'',
        dataSize = length pcmData\<rparr>"
    using decodeWavHeader_layout [of ?m ?n] m n by simp
  ultimately show ?thesis by blast
qed

theorem pcmToWav_header_roundtrip_witness:
  "36 + length [1, 2, 3, 4 :: byte] < (2 :: nat) ^ 32 \<and>
   (\<exists>hdr. pcmToWav [1, 2, 3, 4] SAMPLE_RATE 1 16
             = Some \<lparr>blobBytes = hdr @ [1, 2, 3, 4], blobType = ''audio/wav''\<rparr>
           \<and> length hdr = 44
           \<and> decodeWavHeader hdr =
               Some \<lparr>riffTag = ascii ''RIFF'', fileSize = 40,
                 waveTag = ascii ''WAVE'', fmtTag = ascii ''fmt '', fmtSize = 16,
                 audioFormat = 1, numChannels = 1, sampleRate = 24000, byteRate = 48000,
                 blockAlign = 2, bitsPerSample = 16, dataTag = ascii ''data'',
                 dataSize = 4\<rparr>)"
proof -
  have four: "Suc (Suc (Suc (Suc 0))) = 4" by simp
  show ?thesis
    using pcmToWav_header_roundtrip [of "[1, 2, 3, 4]"] by (simp add: four)
qed

text \<open>
  The claim as stated, for every \<open>N\<close>, fails where \<open>36 + N\<close> no longer fits the 32-bit field:
  for a buffer of \<open>2^32 - 36\<close> bytes the fileSize field reads 0.
\<close>

theorem pcmToWav_fileSize_counterexample:
  "Option.bind (pcmToWav (replicate 4294967260 0) SAMPLE_RATE 1 16) fileSizeField = Some 0
   \<and> 36 + length (replicate 4294967260 (0 :: byte)) = 4294967296"
  by (simp add: fileSizeField_pcmToWav)

section \<open>Properties of speaker attribution and of the image stage\<close>

lemma promptSpeakers_append:
  "promptSpeakers (xs @ ys) = promptSpeakers xs @ promptSpeakers ys"
  by (induction xs rule: promptSpeakers.induct) simp_all

lemma filter_take_empty_mono:
  assumes "j \<le> i" and "filter P (take i els) = []"
  shows "filter P (take j els) = []"
proof -
  have "set (take j els) \<subseteq> set (take i els)"
    using assms(1) by (rule set_take_subset_set_take)
  with assms(2) show ?thesis by (auto simp: filter_empty_conv)
qed

lemma resolveSpeaker_nearest:
  assumes "filter isDialogueBlock (take i els) = [] \<Longrightarrow> c = unknownSpeaker"
  shows "resolveSpeaker els i c = nearestSpeaker els i"
  using assms
  by (cases "filter isDialogueBlock (take i els)")
     (simp_all add: resolveSpeaker_def nearestSpeaker_def pop_def)

lemma nearestSpeaker_no_dialogue:
  "filter isDialogueBlock (take i els) = [] \<Longrightarrow> nearestSpeaker els i = unknownSpeaker"
  by (simp add: nearestSpeaker_def)

lemma imageLoop_Cons_disj:
  "(\<exists>a p b m e. imageLoop sv ci els (x # xs) i c images calls
         = (calls @ [CreateImagePrompt (resolveSpeaker els (fst x) c) a, GenerateImage p b m],
            Inl e))
   \<or> (\<exists>a p b m u. imageLoop sv ci els (x # xs) i c images calls
         = imageLoop sv ci els xs (Suc i) (resolveSpeaker els (fst x) c)
             (images @ [\<lparr>sceneIndex = fst x, imageUrl = u\<rparr>])
             (calls @ [CreateImagePrompt (resolveSpeaker els (fst x) c) a, GenerateImage p b m]))"
proof (cases "generateImage sv i
    (if getProperty ci (trim (toLowerCase (resolveSpeaker els (fst x) c))) \<noteq> Undefined
     then ''Use the character from the input image. Place them in this scene, ''
          @ ''matching the existing art style: ''
          @ createImagePromptFromAction sv i (resolveSpeaker els (fst x) c)
              (orEmpty (content (snd x)))
     else createImagePromptFromAction sv i (resolveSpeaker els (fst x) c)
              (orEmpty (content (snd x))))
    (case getProperty ci (trim (toLowerCase (resolveSpeaker els (fst x) c))) of
       Own k \<Rightarrow> Some (base64 k) | _ \<Rightarrow> None)
    (case getProperty ci (trim (toLowerCase (resolveSpeaker els (fst x) c))) of
       Own k \<Rightarrow> Some (mimeType k) | _ \<Rightarrow> None)")
  case (Inl e)
  then have "\<exists>a p b m e. imageLoop sv ci els (x # xs) i c images calls
         = (calls @ [CreateImagePrompt (resolveSpeaker els (fst x) c) a, GenerateImage p b m],
            Inl e)"
    by (simp add: Let_def del: append.simps)
  then show ?thesis ..
next
  case (Inr u)
  then have "\<exists>a p b m u. imageLoop sv ci els (x # xs) i c images calls
         = imageLoop sv ci els xs (Suc i) (resolveSpeaker els (fst x) c)
             (images @ [\<lparr>sceneIndex = fst x, imageUrl = u\<rparr>])
             (calls @ [CreateImagePrompt (resolveSpeaker els (fst x) c) a, GenerateImage p b m])"
    by (simp add: Let_def del: append.simps) blast
  then show ?thesis ..
qed

lemma imageLoop_Cons_cases:
  obtains (failed) a p b m e where
      "imageLoop sv ci els (x # xs) i c images calls
         = (calls @ [CreateImagePrompt (resolveSpeaker els (fst x) c) a, GenerateImage p b m],
            Inl e)"
  | (pushed) a p b m u where
      "imageLoop sv ci els (x # xs) i c images calls
         = imageLoop sv ci els xs (Suc i) (resolveSpeaker els (fst x) c)
             (images @ [\<lparr>sceneIndex = fst x, imageUrl = u\<rparr>])
             (calls @ [CreateImagePrompt (resolveSpeaker els (fst x) c) a, GenerateImage p b m])"
  using imageLoop_Cons_disj [of sv ci els x xs i c images calls] by blast

lemma imageLoop_prefix:
  assumes "sorted (map fst xs)"
    and "\<And>j. j \<in> fst ` set xs \<Longrightarrow> filter isDialogueBlock (take j els) = [] \<Longrightarrow> c = unknownSpeaker"
  shows "prefix (promptSpeakers (fst (imageLoop sv ci els xs i c images calls)))
           (promptSpeakers calls @ map (nearestSpeaker els) (map fst xs))"
  using assms
proof (induction xs arbitrary: i c images calls)
  case Nil
  then show ?case by simp
next
  case (Cons x xs)
  let ?j = "fst x"
  let ?c = "resolveSpeaker els ?j c"
  have c: "?c = nearestSpeaker els ?j"
    by (rule resolveSpeaker_nearest) (rule Cons.prems(2), simp_all)
  have srt: "sorted (map fst xs)" and le: "\<And>k. k \<in> fst ` set xs \<Longrightarrow> ?j \<le> k"
    using Cons.prems(1) by auto
  have carry: "\<And>k. k \<in> fst ` set xs \<Longrightarrow> filter isDialogueBlock (take k els) = []
      \<Longrightarrow> ?c = unknownSpeaker"
    using c le filter_take_empty_mono nearestSpeaker_no_dialogue by metis
  show ?case
  proof (cases rule: imageLoop_Cons_cases [of sv ci els x xs i c images calls])
    case (failed a p b m e)
    then show ?thesis by (simp add: promptSpeakers_append c del: imageLoop.simps)
  next
    case (pushed a p b m u)
    show ?thesis
      using Cons.IH [where i = "Suc i" and c = ?c
          and images = "images @ [\<lparr>sceneIndex = fst x, imageUrl = u\<rparr>]"
          and calls = "calls @ [CreateImagePrompt ?c a, GenerateImage p b m]", OF srt carry]
      by (simp add: pushed promptSpeakers_append c del: imageLoop.simps)
  qed
qed

lemma imageLoop_success:
  assumes "sorted (map fst xs)"
    and "\<And>j. j \<in> fst ` set xs \<Longrightarrow> filter isDialogueBlock (take j els) = [] \<Longrightarrow> c = unknownSpeaker"
    and "snd (imageLoop sv ci els xs i c images calls) = Inr imgs"
  shows "promptSpeakers (fst (imageLoop sv ci els xs i c images calls))
           = promptSpeakers calls @ map (nearestSpeaker els) (map fst xs)
         \<and> map sceneIndex imgs = map sceneIndex images @ map fst xs"
  using assms
proof (induction xs arbitrary: i c images calls)
  case Nil
  then show ?case by simp
next
  case (Cons x xs)
  let ?j = "fst x"
  let ?c = "resolveSpeaker els ?j c"
  have c: "?c = nearestSpeaker els ?j"
    by (rule resolveSpeaker_nearest) (rule Cons.prems(2), simp_all)
  have srt: "sorted (map fst xs)" and le: "\<And>k. k \<in> fst ` set xs \<Longrightarrow> ?j \<le> k"
    using Cons.prems(1) by auto
  have carry: "\<And>k. k \<in> fst ` set xs \<Longrightarrow> filter isDialogueBlock (take k els) = []
      \<Longrightarrow> ?c = unknownSpeaker"
    using c le filter_take_empty_mono nearestSpeaker_no_dialogue by metis
  show ?case
  proof (cases rule: imageLoop_Cons_cases [of sv ci els x xs i c images calls])
    case (failed a p b m e)
    with Cons.prems(3) show ?thesis by (simp del: imageLoop.simps)
  next
    case (pushed a p b m u)
    show ?thesis
      using Cons.IH [where i = "Suc i" and c = ?c
          and images = "images @ [\<lparr>sceneIndex = fst x, imageUrl = u\<rparr>]"
          and calls = "calls @ [CreateImagePrompt ?c a, GenerateImage p b m]", OF srt carry] Cons.prems(3)
      by (simp add: pushed promptSpeakers_append c del: imageLoop.simps)
  qed
qed

lemma map_fst_filter_enumerate:
  "map fst (filter (\<lambda>(i, e). Q e) (enumerate 0 xs)) = filter (\<lambda>i. Q (xs ! i)) [0..<length xs]"
proof -
  have "filter (\<lambda>(i, e). Q e) (enumerate 0 xs) = filter ((\<lambda>i. Q (xs ! i)) \<circ> fst) (enumerate 0 xs)"
    by (rule filter_cong) (auto simp: in_set_enumerate_eq)
  moreover have "map fst (filter ((\<lambda>i. Q (xs ! i)) \<circ> fst) (enumerate 0 xs))
      = filter (\<lambda>i. Q (xs ! i)) (map fst (enumerate 0 xs))"
    by (simp only: filter_map)
  ultimately show ?thesis by simp
qed

lemma map_fst_scenesWithAction: "map fst (scenesWithAction els) = actionIndices els"
  using map_fst_filter_enumerate [of "\<lambda>e. isAction e \<and> truthy (content e)" els]
  by (simp add: scenesWithAction_def actionIndices_def)

lemma sorted_actionIndices: "sorted_wrt (<) (actionIndices els)"
  by (simp add: actionIndices_def sorted_wrt_filter)

lemma actionIndices_iff:
  "i \<in> set (actionIndices els) \<longleftrightarrow> i < length els \<and> isAction (els ! i) \<and> truthy (content (els ! i))"
  by (auto simp: actionIndices_def)

lemma imageStage_prefix:
  "prefix (promptSpeakers (fst (imageStage sv ci els)))
     (map (nearestSpeaker els) (actionIndices els))"
  using imageLoop_prefix [of "scenesWithAction els" els unknownSpeaker sv ci 0 "[]" "[]"]
    sorted_actionIndices [of els]
  by (simp add: imageStage_def map_fst_scenesWithAction strict_sorted_imp_sorted)

lemma imageStage_success:
  assumes "snd (imageStage sv ci els) = Inr imgs"
  shows "promptSpeakers (fst (imageStage sv ci els)) = map (nearestSpeaker els) (actionIndices els)"
    and "map sceneIndex imgs = actionIndices els"
  using imageLoop_success [of "scenesWithAction els" els unknownSpeaker sv ci 0 "[]" "[]" imgs]
    sorted_actionIndices [of els] assms
  by (simp_all add: imageStage_def map_fst_scenesWithAction strict_sorted_imp_sorted)

lemma nearestSpeaker_zero_dialogue:
  assumes "filter isDialogueBlock els = []"
  shows "nearestSpeaker els i = unknownSpeaker"
proof -
  have "set (take i els) \<subseteq> set els" by (rule set_take_subset)
  with assms have "filter isDialogueBlock (take i els) = []"
    by (auto simp: filter_empty_conv)
  then show ?thesis by (rule nearestSpeaker_no_dialogue)
qed

lemma generateImage_scenario: "generateImage scenarioServices i p None None = Inr ''iVBORw0KGgo=''"
  by (simp add: generateImage_def scenarioServices_def truthy_def)

lemma createImagePrompt_scenario:
  "createImagePromptFromAction scenarioServices i c a = c @ '' '' @ a"
  by (simp add: createImagePromptFromAction_def scenarioServices_def)

lemma scenesWithAction_ursulaScene:
  "scenesWithAction ursulaScene
     = [(0, Action (Some ''A saucer lands.'')), (2, Action (Some ''She waves.''))]"
  by (simp add: scenesWithAction_def ursulaScene_def truthy_def)

lemma scenesWithAction_silentScene:
  "scenesWithAction silentScene
     = [(0, Action (Some ''A saucer lands.'')), (2, Action (Some ''It leaves.''))]"
  by (simp add: scenesWithAction_def silentScene_def truthy_def)

lemma resolveSpeaker_ursulaScene:
  "resolveSpeaker ursulaScene 0 c = c" "resolveSpeaker ursulaScene 2 c = ''URSULA''"
  by (simp_all add: resolveSpeaker_def ursulaScene_def pop_def)

lemma resolveSpeaker_silentScene:
  "resolveSpeaker silentScene 0 c = c" "resolveSpeaker silentScene 2 c = c"
  by (simp_all add: resolveSpeaker_def silentScene_def pop_def)

lemma no_character_image:
  "getProperty Map.empty (trim (toLowerCase ''A character'')) = Undefined"
  "getProperty Map.empty (trim (toLowerCase ''URSULA'')) = Undefined"
  by (simp_all add: getProperty_def objectPrototypeKeys_def trim_def toLowerCase_def
      toLowerCaseChar_def isWhiteSpace_def)

lemmas image_eval = imageStage_def Let_def unknownSpeaker_def orEmpty_def
  generateImage_scenario createImagePrompt_scenario no_character_image

lemma imageStage_ursulaScene:
  "imageStage scenarioServices Map.empty ursulaScene =
     ([CreateImagePrompt ''A character'' ''A saucer lands.'',
       GenerateImage ''A character A saucer lands.'' None None,
       CreateImagePrompt ''URSULA'' ''She waves.'',
       GenerateImage ''URSULA She waves.'' None None],
      Inr [\<lparr>sceneIndex = 0, imageUrl = ''data:image/png;base64,iVBORw0KGgo=''\<rparr>,
           \<lparr>sceneIndex = 2, imageUrl = ''data:image/png;base64,iVBORw0KGgo=''\<rparr>])"
  by (simp add: image_eval scenesWithAction_ursulaScene resolveSpeaker_ursulaScene)

lemma imageStage_silentScene:
  "imageStage scenarioServices Map.empty silentScene =
     ([CreateImagePrompt ''A character'' ''A saucer lands.'',
       GenerateImage ''A character A saucer lands.'' None None,
       CreateImagePrompt ''A character'' ''It leaves.'',
       GenerateImage ''A character It leaves.'' None None],
      Inr [\<lparr>sceneIndex = 0, imageUrl = ''data:image/png;base64,iVBORw0KGgo=''\<rparr>,
           \<lparr>sceneIndex = 2, imageUrl = ''data:image/png;base64,iVBORw0KGgo=''\<rparr>])"
  by (simp add: image_eval scenesWithAction_silentScene resolveSpeaker_silentScene)

text \<open>
  C2. The speakers handed to the prompt writer are, in request order, the characters of the
  nearest dialogue block before each action with non-empty content (the unknown speaker
  \<open>A character\<close> when no dialogue block precedes it): always as far as the stage gets, and for
  every such action when the stage completes. In a script without dialogue blocks every
  attributed speaker is the unknown speaker.
\<close>

theorem speaker_attribution:
  "prefix (promptSpeakers (fst (imageStage sv ci els)))
      (map (nearestSpeaker els) (actionIndices els))
   \<and> (\<forall>images. snd (imageStage sv ci els) = Inr images \<longrightarrow>
         promptSpeakers (fst (imageStage sv ci els))
           = map (nearestSpeaker els) (actionIndices els))
   \<and> (filter isDialogueBlock els = [] \<longrightarrow>
         set (promptSpeakers (fst (imageStage sv ci els))) \<subseteq> {unknownSpeaker})"
proof (intro conjI allI impI)
  show pre: "prefix (promptSpeakers (fst (imageStage sv ci els)))
      (map (nearestSpeaker els) (actionIndices els))"
    by (rule imageStage_prefix)
  show "promptSpeakers (fst (imageStage sv ci els)) = map (nearestSpeaker els) (actionIndices els)"
    if "snd (imageStage sv ci els) = Inr images" for images
    using that by (rule imageStage_success(1))
  show "set (promptSpeakers (fst (imageStage sv ci els))) \<subseteq> {unknownSpeaker}"
    if "filter isDialogueBlock els = []"
  proof -
    have "set (map (nearestSpeaker els) (actionIndices els)) \<subseteq> {unknownSpeaker}"
      using that by (auto simp: nearestSpeaker_zero_dialogue)
    with set_mono_prefix [OF pre] show ?thesis by blast
  qed
qed

theorem speaker_attribution_witness:
  "snd (imageStage scenarioServices Map.empty ursulaScene)
     = Inr [\<lparr>sceneIndex = 0, imageUrl = ''data:image/png;base64,iVBORw0KGgo=''\<rparr>,
            \<lparr>sceneIndex = 2, imageUrl = ''data:image/png;base64,iVBORw0KGgo=''\<rparr>]
   \<and> map (nearestSpeaker ursulaScene) (actionIndices ursulaScene) = [''A character'', ''URSULA'']
   \<and> promptSpeakers (fst (imageStage scenarioServices Map.empty ursulaScene))
       = [''A character'', ''URSULA'']
   \<and> filter isDialogueBlock silentScene = []
   \<and> length (promptSpeakers (fst (imageStage scenarioServices Map.empty silentScene))) = 2
   \<and> set (promptSpeakers (fst (imageStage scenarioServices Map.empty silentScene)))
       \<subseteq> {''A character''}"
proof -
  have run: "snd (imageStage scenarioServices Map.empty ursulaScene)
     = Inr [\<lparr>sceneIndex = 0, imageUrl = ''data:image/png;base64,iVBORw0KGgo=''\<rparr>,
            \<lparr>sceneIndex = 2, imageUrl = ''data:image/png;base64,iVBORw0KGgo=''\<rparr>]"
    by (simp add: imageStage_ursulaScene)
  have spec: "map (nearestSpeaker ursulaScene) (actionIndices ursulaScene)
      = [''A character'', ''URSULA'']"
    by (simp add: nearestSpeaker_def actionIndices_def truthy_def unknownSpeaker_def upt_rec
        ursulaScene_def)
  have silent: "filter isDialogueBlock silentScene = []"
    by (simp add: silentScene_def)
  have two: "length (promptSpeakers (fst (imageStage scenarioServices Map.empty silentScene))) = 2"
    by (simp add: imageStage_silentScene)
  from speaker_attribution [of scenarioServices Map.empty ursulaScene] run spec
  have a: "promptSpeakers (fst (imageStage scenarioServices Map.empty ursulaScene))
       = [''A character'', ''URSULA'']"
    by simp
  from speaker_attribution [of scenarioServices Map.empty silentScene] silent
  have b: "set (promptSpeakers (fst (imageStage scenarioServices Map.empty silentScene)))
       \<subseteq> {''A character''}"
    by (simp add: unknownSpeaker_def)
  from run spec a silent two b show ?thesis by blast
qed

section \<open>Properties of the speech stage\<close>

lemma pcmToWav_Some: "\<exists>blob. pcmToWav pcmData SAMPLE_RATE 1 16 = Some blob"
  by (simp add: pcmToWav_layout)

lemma sampleBytes_pcmToWav:
  "pcmToWav pcmData SAMPLE_RATE 1 16 = Some blob \<Longrightarrow> drop 44 (blobBytes blob) = pcmData"
  by (auto simp: pcmToWav_layout)

lemma speechTexts_append: "speechTexts (xs @ ys) = speechTexts xs @ speechTexts ys"
  by (induction xs rule: speechTexts.induct) simp_all

lemma speechLoop_skip:
  "dialogueText (snd b) = [] \<Longrightarrow>
     speechLoop sv voices (b # rest) i clips calls = speechLoop sv voices rest (Suc i) clips calls"
  by (simp add: Let_def)

lemma speechLoop_spoken:
  assumes "dialogueText (snd b) \<noteq> []"
  shows "(\<exists>e. speechLoop sv voices (b # rest) i clips calls
             = (calls @ [GenerateSpeech (promptText (snd b))
                           (getProperty voices (character (snd b)))], Inl e)
           \<and> (\<forall>payload pcm. generateSpeech sv i (promptText (snd b))
                    (getProperty voices (character (snd b))) = Inr payload
                 \<longrightarrow> decode sv payload \<noteq> Inr pcm))
       \<or> (\<exists>payload pcm blob.
             generateSpeech sv i (promptText (snd b)) (getProperty voices (character (snd b)))
               = Inr payload
           \<and> decode sv payload = Inr pcm
           \<and> pcmToWav pcm SAMPLE_RATE 1 16 = Some blob
           \<and> speechLoop sv voices (b # rest) i clips calls
               = speechLoop sv voices rest (Suc i)
                   (clips @ [\<lparr>sceneIndex = fst b, audioBlob = blob,
                               duration = of_nat (length pcm) / (SAMPLE_RATE * 2),
                               audioCharacter = character (snd b),
                               dialogue = dialogueText (snd b)\<rparr>])
                   (calls @ [GenerateSpeech (promptText (snd b))
                               (getProperty voices (character (snd b)))]))"
proof (cases "generateSpeech sv i (promptText (snd b)) (getProperty voices (character (snd b)))")
  case (Inl e)
  with assms show ?thesis by (simp add: Let_def)
next
  case (Inr payload)
  note gen = this
  show ?thesis
  proof (cases "decode sv payload")
    case (Inl e)
    with assms gen show ?thesis by (simp add: Let_def)
  next
    case (Inr pcm)
    obtain blob where blob: "pcmToWav pcm SAMPLE_RATE 1 16 = Some blob"
      using pcmToWav_Some by blast
    with assms gen Inr show ?thesis by (simp add: Let_def)
  qed
qed


lemma speechLoop_success:
  assumes "snd (speechLoop sv voices bs i clips calls) = Inr out"
  shows "map sceneIndex out = map sceneIndex clips @ map fst (filter spoken bs)
       \<and> map dialogue out = map dialogue clips @ map (dialogueText \<circ> snd) (filter spoken bs)
       \<and> map audioCharacter out
           = map audioCharacter clips @ map (character \<circ> snd) (filter spoken bs)
       \<and> speechTexts (fst (speechLoop sv voices bs i clips calls))
           = speechTexts calls @ map (promptText \<circ> snd) (filter spoken bs)"
  using assms
proof (induction bs arbitrary: i clips calls)
  case Nil
  then show ?case by simp
next
  case (Cons b bs)
  show ?case
  proof (cases "dialogueText (snd b) = []")
    case True
    then have eq: "speechLoop sv voices (b # bs) i clips calls
        = speechLoop sv voices bs (Suc i) clips calls"
      by (rule speechLoop_skip)
    from Cons.IH [of "Suc i" clips calls] Cons.prems True show ?thesis
      by (simp add: eq spoken_def del: speechLoop.simps)
  next
    case False
    from speechLoop_spoken [OF False, of sv voices bs i clips calls] show ?thesis
    proof (elim disjE exE conjE)
      fix e
      assume "speechLoop sv voices (b # bs) i clips calls
        = (calls @ [GenerateSpeech (promptText (snd b)) (getProperty voices (character (snd b)))],
           Inl e)"
      with Cons.prems show ?thesis by (simp del: speechLoop.simps)
    next
      fix payload and pcm :: "byte list" and blob
      assume eq: "speechLoop sv voices (b # bs) i clips calls
               = speechLoop sv voices bs (Suc i)
                   (clips @ [\<lparr>sceneIndex = fst b, audioBlob = blob,
                               duration = of_nat (length pcm) / (SAMPLE_RATE * 2),
                               audioCharacter = character (snd b),
                               dialogue = dialogueText (snd b)\<rparr>])
                   (calls @ [GenerateSpeech (promptText (snd b))
                               (getProperty voices (character (snd b)))])"
      from Cons.IH [of "Suc i" "clips @ [\<lparr>sceneIndex = fst b, audioBlob = blob,
                               duration = of_nat (length pcm) / (SAMPLE_RATE * 2),
                               audioCharacter = character (snd b),
                               dialogue = dialogueText (snd b)\<rparr>]"
             "calls @ [GenerateSpeech (promptText (snd b))
                               (getProperty voices (character (snd b)))]"]
        Cons.prems False
      show ?thesis
        by (simp add: eq spoken_def speechTexts_append del: speechLoop.simps)
    qed
  qed
qed


lemma speechLoop_prefix:
  "prefix (speechTexts (fst (speechLoop sv voices bs i clips calls)))
     (speechTexts calls @ map (promptText \<circ> snd) (filter spoken bs))"
proof (induction bs arbitrary: i clips calls)
  case Nil
  then show ?case by simp
next
  case (Cons b bs)
  show ?case
  proof (cases "dialogueText (snd b) = []")
    case True
    then have eq: "speechLoop sv voices (b # bs) i clips calls
        = speechLoop sv voices bs (Suc i) clips calls"
      by (rule speechLoop_skip)
    from Cons.IH [of "Suc i" clips calls] True show ?thesis
      by (simp add: eq spoken_def del: speechLoop.simps)
  next
    case False
    from speechLoop_spoken [OF False, of sv voices bs i clips calls] show ?thesis
    proof (elim disjE exE conjE)
      fix e
      assume "speechLoop sv voices (b # bs) i clips calls
        = (calls @ [GenerateSpeech (promptText (snd b)) (getProperty voices (character (snd b)))],
           Inl e)"
      with False show ?thesis
        by (simp add: spoken_def speechTexts_append del: speechLoop.simps)
    next
      fix payload and pcm :: "byte list" and blob
      assume eq: "speechLoop sv voices (b # bs) i clips calls
               = speechLoop sv voices bs (Suc i)
                   (clips @ [\<lparr>sceneIndex = fst b, audioBlob = blob,
                               duration = of_nat (length pcm) / (SAMPLE_RATE * 2),
                               audioCharacter = character (snd b),
                               dialogue = dialogueText (snd b)\<rparr>])
                   (calls @ [GenerateSpeech (promptText (snd b))
                               (getProperty voices (character (snd b)))])"
      from Cons.IH [of "Suc i" "clips @ [\<lparr>sceneIndex = fst b, audioBlob = blob,
                               duration = of_nat (length pcm) / (SAMPLE_RATE * 2),
                               audioCharacter = character (snd b),
                               dialogue = dialogueText (snd b)\<rparr>]"
             "calls @ [GenerateSpeech (promptText (snd b))
                               (getProperty voices (character (snd b)))]"] False
      show ?thesis
        by (simp add: eq spoken_def speechTexts_append del: speechLoop.simps)
    qed
  qed
qed

lemma answered_Cons:
  assumes "answered sv voices i (b # bs)"
  shows "answered sv voices (Suc i) bs"
  unfolding answered_def
proof (intro allI impI)
  fix k assume k: "k < length bs" and sp: "spoken (bs ! k)"
  from assms [unfolded answered_def, rule_format, of "Suc k"] k sp
  show "\<exists>payload pcm.
           generateSpeech sv (Suc i + k) (promptText (snd (bs ! k)))
             (getProperty voices (character (snd (bs ! k)))) = Inr payload
           \<and> decode sv payload = Inr pcm"
    by simp
qed

lemma speechLoop_answered:
  assumes "answered sv voices i bs"
  shows "\<exists>out. snd (speechLoop sv voices bs i clips calls) = Inr out"
  using assms
proof (induction bs arbitrary: i clips calls)
  case Nil
  then show ?case by simp
next
  case (Cons b bs)
  note rest = answered_Cons [OF Cons.prems]
  show ?case
  proof (cases "dialogueText (snd b) = []")
    case True
    then have eq: "speechLoop sv voices (b # bs) i clips calls
        = speechLoop sv voices bs (Suc i) clips calls"
      by (rule speechLoop_skip)
    from Cons.IH [OF rest, of clips calls] show ?thesis
      by (simp add: eq del: speechLoop.simps)
  next
    case False
    from Cons.prems [unfolded answered_def, rule_format, of 0] False
    obtain payload pcm where ok:
      "generateSpeech sv i (promptText (snd b)) (getProperty voices (character (snd b)))
         = Inr payload" "decode sv payload = Inr pcm"
      by (auto simp: spoken_def)
    from speechLoop_spoken [OF False, of sv voices bs i clips calls] show ?thesis
    proof (elim disjE exE conjE)
      fix e
      assume "\<forall>payload pcm. generateSpeech sv i (promptText (snd b))
                    (getProperty voices (character (snd b))) = Inr payload
                 \<longrightarrow> decode sv payload \<noteq> Inr pcm"
      with ok show ?thesis by blast
    next
      fix payload' and pcm' :: "byte list" and blob
      assume eq: "speechLoop sv voices (b # bs) i clips calls
               = speechLoop sv voices bs (Suc i)
                   (clips @ [\<lparr>sceneIndex = fst b, audioBlob = blob,
                               duration = of_nat (length pcm') / (SAMPLE_RATE * 2),
                               audioCharacter = character (snd b),
                               dialogue = dialogueText (snd b)\<rparr>])
                   (calls @ [GenerateSpeech (promptText (snd b))
                               (getProperty voices (character (snd b)))])"
      from Cons.IH [OF rest] show ?thesis
        by (simp add: eq del: speechLoop.simps)
    qed
  qed
qed

lemma speechLoop_provenance:
  assumes "snd (speechLoop sv voices bs i clips calls) = Inr out" and "clip \<in> set out"
  shows "clip \<in> set clips
       \<or> (\<exists>k t v payload. generateSpeech sv k t v = Inr payload
             \<and> decode sv payload = Inr (sampleBytes clip)
             \<and> pcmToWav (sampleBytes clip) SAMPLE_RATE 1 16 = Some (audioBlob clip)
             \<and> duration clip = of_nat (length (sampleBytes clip)) / (SAMPLE_RATE * 2))"
  using assms
proof (induction bs arbitrary: i clips calls)
  case Nil
  then show ?case by simp
next
  case (Cons b bs)
  show ?case
  proof (cases "dialogueText (snd b) = []")
    case True
    then have eq: "speechLoop sv voices (b # bs) i clips calls
        = speechLoop sv voices bs (Suc i) clips calls"
      by (rule speechLoop_skip)
    from Cons.IH [of "Suc i" clips calls] Cons.prems show ?thesis
      by (simp add: eq del: speechLoop.simps)
  next
    case False
    from speechLoop_spoken [OF False, of sv voices bs i clips calls] show ?thesis
    proof (elim disjE exE conjE)
      fix e
      assume "speechLoop sv voices (b # bs) i clips calls
        = (calls @ [GenerateSpeech (promptText (snd b)) (getProperty voices (character (snd b)))],
           Inl e)"
      with Cons.prems show ?thesis by (simp del: speechLoop.simps)
    next
      fix payload and pcm :: "byte list" and blob
      let ?new = "\<lparr>sceneIndex = fst b, audioBlob = blob,
                               duration = of_nat (length pcm) / (SAMPLE_RATE * 2),
                               audioCharacter = character (snd b),
                               dialogue = dialogueText (snd b)\<rparr>"
      assume gen: "generateSpeech sv i (promptText (snd b))
              (getProperty voices (character (snd b))) = Inr payload"
        and dec: "decode sv payload = Inr pcm"
        and wav: "pcmToWav pcm SAMPLE_RATE 1 16 = Some blob"
        and eq: "speechLoop sv voices (b # bs) i clips calls
               = speechLoop sv voices bs (Suc i) (clips @ [?new])
                   (calls @ [GenerateSpeech (promptText (snd b))
                               (getProperty voices (character (snd b)))])"
      have sb: "sampleBytes ?new = pcm"
        using sampleBytes_pcmToWav [OF wav] by (simp add: sampleBytes_def)
      from Cons.IH [of "Suc i" "clips @ [?new]"
             "calls @ [GenerateSpeech (promptText (snd b))
                               (getProperty voices (character (snd b)))]"] Cons.prems
      have "clip \<in> set (clips @ [?new]) \<or> (\<exists>k t v payload. generateSpeech sv k t v = Inr payload
             \<and> decode sv payload = Inr (sampleBytes clip)
             \<and> pcmToWav (sampleBytes clip) SAMPLE_RATE 1 16 = Some (audioBlob clip)
             \<and> duration clip = of_nat (length (sampleBytes clip)) / (SAMPLE_RATE * 2))"
        by (simp add: eq del: speechLoop.simps)
      moreover have "\<exists>k t v payload. generateSpeech sv k t v = Inr payload
             \<and> decode sv payload = Inr (sampleBytes clip)
             \<and> pcmToWav (sampleBytes clip) SAMPLE_RATE 1 16 = Some (audioBlob clip)
             \<and> duration clip = of_nat (length (sampleBytes clip)) / (SAMPLE_RATE * 2)"
        if "clip = ?new"
        using gen dec wav sb that by auto
      ultimately show ?thesis by auto
    qed
  qed
qed

lemma map_fst_dialogueBlocks_filter:
  "map fst (filter spoken (dialogueBlocks els)) = spokenIndices els"
proof -
  have "filter spoken (dialogueBlocks els)
      = filter (\<lambda>(i, e). isDialogueBlock e \<and> dialogueText e \<noteq> []) (enumerate 0 els)"
    by (simp add: dialogueBlocks_def spoken_def case_prod_unfold)
  then show ?thesis
    using map_fst_filter_enumerate [of "\<lambda>e. isDialogueBlock e \<and> dialogueText e \<noteq> []" els]
    by (simp add: spokenIndices_def)
qed

lemma map_fst_spokenBlocks: "map fst (spokenBlocks els) = spokenIndices els"
  by (simp add: spokenBlocks_def map_fst_dialogueBlocks_filter)

lemma sorted_spokenIndices: "sorted_wrt (<) (spokenIndices els)"
  by (simp add: spokenIndices_def sorted_wrt_filter)

lemma spokenIndices_iff:
  "i \<in> set (spokenIndices els) \<longleftrightarrow>
     i < length els \<and> isDialogueBlock (els ! i) \<and> dialogueText (els ! i) \<noteq> []"
  by (auto simp: spokenIndices_def)

lemma snd_dialogueBlocks:
  "b \<in> set (dialogueBlocks els) \<Longrightarrow> snd b = els ! fst b"
  by (auto simp: dialogueBlocks_def in_set_enumerate_eq)

lemma map_snd_spokenBlocks:
  "map (f \<circ> snd) (spokenBlocks els) = map (\<lambda>i. f (els ! i)) (spokenIndices els)"
proof -
  have "map (f \<circ> snd) (spokenBlocks els) = map ((\<lambda>i. f (els ! i)) \<circ> fst) (spokenBlocks els)"
    by (rule map_cong) (auto simp: spokenBlocks_def dest: snd_dialogueBlocks)
  also have "\<dots> = map (\<lambda>i. f (els ! i)) (map fst (spokenBlocks els))"
    by simp
  finally show ?thesis by (simp add: map_fst_spokenBlocks)
qed

lemma speechStage_success:
  assumes "snd (speechStage sv voices els) = Inr clips"
  shows "map sceneIndex clips = spokenIndices els"
    and "map dialogue clips = map (\<lambda>i. dialogueText (els ! i)) (spokenIndices els)"
    and "map audioCharacter clips = map (\<lambda>i. character (els ! i)) (spokenIndices els)"
    and "speechTexts (fst (speechStage sv voices els))
           = map (\<lambda>i. promptText (els ! i)) (spokenIndices els)"
  using speechLoop_success [of sv voices "dialogueBlocks els" 0 "[]" "[]" clips] assms
    map_snd_spokenBlocks [of dialogueText els] map_snd_spokenBlocks [of character els]
    map_snd_spokenBlocks [of promptText els]
  by (simp_all add: speechStage_def map_fst_dialogueBlocks_filter spokenBlocks_def)

lemma speechStage_prefix:
  "prefix (speechTexts (fst (speechStage sv voices els)))
     (map (\<lambda>i. promptText (els ! i)) (spokenIndices els))"
  using speechLoop_prefix [of sv voices "dialogueBlocks els" 0 "[]" "[]"]
    map_snd_spokenBlocks [of promptText els]
  by (simp add: speechStage_def spokenBlocks_def)

lemma find_filter_same: "find P (filter P xs) = find P xs"
  by (induction xs) simp_all

lemma find_isDialogue_upTo: "find isDialogue (upToFirstDialogue es) = find isDialogue es"
  by (induction es) simp_all

lemma find_isParenthetical_upTo:
  "find isParenthetical (upToFirstDialogue es) = find isParenthetical es"
proof (induction es)
  case Nil
  then show ?case by simp
next
  case (Cons e es)
  then show ?case by (cases e) (simp_all add: find_filter_same)
qed

lemma dialogueText_firstDialogueOnly: "dialogueText (firstDialogueOnly e) = dialogueText e"
  by (cases e) (simp_all add: dialogueText_def find_isDialogue_upTo)

lemma dialogueText_upTo:
  "dialogueText (DialogueBlock c (upToFirstDialogue es)) = dialogueText (DialogueBlock c es)"
  by (simp add: dialogueText_def find_isDialogue_upTo)

lemma promptText_firstDialogueOnly: "promptText (firstDialogueOnly e) = promptText e"
  by (cases e) (simp_all add: promptText_def Let_def dialogueText_upTo find_isParenthetical_upTo)

lemma character_firstDialogueOnly: "character (firstDialogueOnly e) = character e"
  by (cases e) simp_all

lemma isDialogueBlock_firstDialogueOnly: "isDialogueBlock (firstDialogueOnly e) = isDialogueBlock e"
  by (cases e) simp_all

lemma enumerate_map: "enumerate n (map f xs) = map (\<lambda>p. (fst p, f (snd p))) (enumerate n xs)"
  by (induction xs arbitrary: n) simp_all

lemma dialogueBlocks_firstDialogueOnly:
  "dialogueBlocks (map firstDialogueOnly els)
     = map (\<lambda>p. (fst p, firstDialogueOnly (snd p))) (dialogueBlocks els)"
  by (simp add: dialogueBlocks_def enumerate_map filter_map comp_def case_prod_unfold
      isDialogueBlock_firstDialogueOnly)

lemma speechLoop_firstDialogueOnly:
  "speechLoop sv voices (map (\<lambda>p. (fst p, firstDialogueOnly (snd p))) bs) i clips calls
     = speechLoop sv voices bs i clips calls"
  by (induction bs arbitrary: i clips calls)
    (simp_all add: Let_def dialogueText_firstDialogueOnly promptText_firstDialogueOnly
      character_firstDialogueOnly split: sum.split option.split)

lemma speechStage_firstDialogueOnly:
  "speechStage sv voices (map firstDialogueOnly els) = speechStage sv voices els"
  by (simp add: speechStage_def dialogueBlocks_firstDialogueOnly speechLoop_firstDialogueOnly)

lemma dialogueText_first:
  "filter isDialogue pre = [] \<Longrightarrow> dialogueText (DialogueBlock c (pre @ Dialogue d # post)) = d"
proof (induction pre)
  case Nil
  then show ?case by (simp add: dialogueText_def orEmpty_def)
next
  case (Cons e pre)
  then show ?case by (cases e) (simp_all add: dialogueText_def split: if_splits)
qed

lemma atobForgiving_four: "atobForgiving ''AAAAAA=='' = Inr [0, 0, 0, 0]"
  by (simp add: atobForgiving_def stripPadding_def isAsciiWhitespace_def base64Alphabet_def Let_def)

lemma atobForgiving_one: "atobForgiving ''AA=='' = Inr [0]"
  by (simp add: atobForgiving_def stripPadding_def isAsciiWhitespace_def base64Alphabet_def Let_def)

lemma generateSpeech_scenario: "generateSpeech scenarioServices k t v = Inr ''AAAAAA==''"
  by (simp add: generateSpeech_def scenarioServices_def)

lemma decode_scenario: "decode scenarioServices ''AAAAAA=='' = Inr [0, 0, 0, 0]"
  by (simp add: decode_def scenarioServices_def atobForgiving_four)

lemma generateSpeech_oddPayload: "generateSpeech oddPayloadServices k t v = Inr ''AA==''"
  by (simp add: generateSpeech_def oddPayloadServices_def scenarioServices_def)

lemma decode_oddPayload: "decode oddPayloadServices ''AA=='' = Inr [0]"
  by (simp add: decode_def oddPayloadServices_def scenarioServices_def atobForgiving_one)

lemmas speech_eval = speechStage_def dialogueBlocks_def Let_def dialogueText_def promptText_def
  orEmpty_def truthy_def getProperty_def pcmToWav_layout byteAt_numeral objectPrototypeKeys_def

lemma answered_scenario: "answered scenarioServices voices i bs"
  by (simp add: answered_def generateSpeech_scenario decode_scenario)

lemma spokenIndices_pauseScene: "spokenIndices pauseScene = [0, 3]"
  by (simp add: spokenIndices_def pauseScene_def dialogueText_def orEmpty_def upt_rec)

lemma speechTexts_pauseScene:
  "speechTexts (fst (speechStage scenarioServices [''URSULA'' \<mapsto> ''Kore''] pauseScene))
     = [''Hello.'', ''(speaking in a sad tone) Bye.'']"
  by (simp add: speech_eval pauseScene_def generateSpeech_scenario decode_scenario)

lemma speechStage_oddPayload:
  "speechStage oddPayloadServices [''URSULA'' \<mapsto> ''Kore''] ursulaScene =
     ([GenerateSpeech ''(speaking in a cheerful tone) Hello.'' (Own ''Kore'')],
      Inr [\<lparr>sceneIndex = 1,
             audioBlob =
               \<lparr>blobBytes =
                  [82, 73, 70, 70, 37, 0, 0, 0, 87, 65, 86, 69, 102, 109, 116, 32, 16, 0, 0, 0,
                   1, 0, 1, 0, 192, 93, 0, 0, 128, 187, 0, 0, 2, 0, 16, 0, 100, 97, 116, 97,
                   1, 0, 0, 0, 0],
                blobType = ''audio/wav''\<rparr>,
             duration = 1 / 48000, audioCharacter = ''URSULA'', dialogue = ''Hello.''\<rparr>])"
  by (simp add: speech_eval ursulaScene_def generateSpeech_oddPayload decode_oddPayload
      byteAt_Suc_0 SAMPLE_RATE_def pcmToWav_layout [unfolded SAMPLE_RATE_def])


text \<open>
  C6. Speech requests are sent only for dialogue blocks with dialogue text, in document order:
  the texts sent are always a prefix of the prompt texts of those blocks. A block whose first
  dialogue line is missing or empty is passed over: it sends no request, so it produces no clip
  and cannot fail. When the stage completes, there is one clip per block with dialogue text,
  at that block's position; and it completes whenever every request for such a block is
  answered with a payload that decodes.
\<close>

theorem speech_skips_empty_dialogue:
  "prefix (speechTexts (fst (speechStage sv voices els)))
      (map (\<lambda>i. promptText (els ! i)) (spokenIndices els))
   \<and> (\<forall>clips. snd (speechStage sv voices els) = Inr clips \<longrightarrow>
         map sceneIndex clips = spokenIndices els
         \<and> speechTexts (fst (speechStage sv voices els))
             = map (\<lambda>i. promptText (els ! i)) (spokenIndices els))
   \<and> (answered sv voices 0 (dialogueBlocks els) \<longrightarrow>
         (\<exists>clips. snd (speechStage sv voices els) = Inr clips
            \<and> map sceneIndex clips = spokenIndices els))"
proof (intro conjI allI impI)
  show "prefix (speechTexts (fst (speechStage sv voices els)))
      (map (\<lambda>i. promptText (els ! i)) (spokenIndices els))"
    by (rule speechStage_prefix)
  show "map sceneIndex clips = spokenIndices els"
    if "snd (speechStage sv voices els) = Inr clips" for clips
    using that by (rule speechStage_success(1))
  show "speechTexts (fst (speechStage sv voices els))
      = map (\<lambda>i. promptText (els ! i)) (spokenIndices els)"
    if "snd (speechStage sv voices els) = Inr clips" for clips
    using that by (rule speechStage_success(4))
  show "\<exists>clips. snd (speechStage sv voices els) = Inr clips
      \<and> map sceneIndex clips = spokenIndices els"
    if "answered sv voices 0 (dialogueBlocks els)"
  proof -
    from speechLoop_answered [OF that, of "[]" "[]"]
    obtain clips where "snd (speechStage sv voices els) = Inr clips"
      by (auto simp: speechStage_def)
    then show ?thesis using speechStage_success(1) by blast
  qed
qed

theorem speech_skips_empty_dialogue_witness:
  "answered scenarioServices [''URSULA'' \<mapsto> ''Kore''] 0 (dialogueBlocks pauseScene)
   \<and> spokenIndices pauseScene = [0, 3]
   \<and> (\<exists>clips. snd (speechStage scenarioServices [''URSULA'' \<mapsto> ''Kore''] pauseScene)
           = Inr clips \<and> map sceneIndex clips = [0, 3])"
  using speech_skips_empty_dialogue [of scenarioServices "[''URSULA'' \<mapsto> ''Kore'']" pauseScene]
    answered_scenario [of "[''URSULA'' \<mapsto> ''Kore'']" 0 "dialogueBlocks pauseScene"]
  by (simp add: spokenIndices_pauseScene)

text \<open>
  C9 (as amended). The pipeline never checks the length of the audio it receives: every buffer
  handed to the encoder is, byte for byte, what \<open>decode\<close> returns for a payload of a speech
  response. So the buffers have even length whenever every payload decodes to an even number of
  bytes, and not otherwise.
\<close>

theorem encoder_input_is_decoded_payload:
  assumes "snd (speechStage sv voices els) = Inr clips"
  shows "(\<forall>clip \<in> set clips. \<exists>k t v payload.
            generateSpeech sv k t v = Inr payload
          \<and> decode sv payload = Inr (sampleBytes clip)
          \<and> pcmToWav (sampleBytes clip) SAMPLE_RATE 1 16 = Some (audioBlob clip))
       \<and> ((\<forall>k t v payload pcm. generateSpeech sv k t v = Inr payload
              \<longrightarrow> decode sv payload = Inr pcm \<longrightarrow> even (length pcm))
            \<longrightarrow> (\<forall>clip \<in> set clips. even (length (sampleBytes clip))))"
proof -
  have prov: "\<exists>k t v payload. generateSpeech sv k t v = Inr payload
          \<and> decode sv payload = Inr (sampleBytes clip)
          \<and> pcmToWav (sampleBytes clip) SAMPLE_RATE 1 16 = Some (audioBlob clip)"
    if "clip \<in> set clips" for clip
    using speechLoop_provenance [of sv voices "dialogueBlocks els" 0 "[]" "[]" clips clip]
      assms that
    by (auto simp: speechStage_def)
  show ?thesis
  proof (intro conjI ballI impI)
    fix clip assume "clip \<in> set clips"
    then show "\<exists>k t v payload. generateSpeech sv k t v = Inr payload
          \<and> decode sv payload = Inr (sampleBytes clip)
          \<and> pcmToWav (sampleBytes clip) SAMPLE_RATE 1 16 = Some (audioBlob clip)"
      by (rule prov)
  next
    fix clip
    assume ev: "\<forall>k t v payload pcm. generateSpeech sv k t v = Inr payload
              \<longrightarrow> decode sv payload = Inr pcm \<longrightarrow> even (length pcm)"
      and "clip \<in> set clips"
    with prov [of clip] show "even (length (sampleBytes clip))" by blast
  qed
qed

text \<open>
  C10. Only the first dialogue line of a block reaches speech synthesis and the clip: removing
  every dialogue line after the first from every block changes neither the requests nor the
  outcome of the stage; the dialogue text of a block is the content of its first dialogue
  line; and in a completed stage the \<open>dialogue\<close> fields and the texts sent are the dialogue
  texts and the prompt texts (the dialogue text, prefixed by the tone when there is a
  parenthetical) of the blocks with dialogue text.
\<close>

theorem only_first_dialogue_is_spoken:
  "speechStage sv voices (map firstDialogueOnly els) = speechStage sv voices els
   \<and> (filter isDialogue pre = [] \<longrightarrow>
         dialogueText (DialogueBlock c (pre @ Dialogue d # post)) = d
         \<and> firstDialogueOnly (DialogueBlock c (pre @ Dialogue d # post))
             = DialogueBlock c (pre @ Dialogue d # filter isParenthetical post))
   \<and> (\<forall>clips. snd (speechStage sv voices els) = Inr clips \<longrightarrow>
         map dialogue clips = map (\<lambda>i. dialogueText (els ! i)) (spokenIndices els)
         \<and> speechTexts (fst (speechStage sv voices els))
             = map (\<lambda>i. promptText (els ! i)) (spokenIndices els))"
proof (intro conjI allI impI)
  show "speechStage sv voices (map firstDialogueOnly els) = speechStage sv voices els"
    by (rule speechStage_firstDialogueOnly)
  show "dialogueText (DialogueBlock c (pre @ Dialogue d # post)) = d"
    if "filter isDialogue pre = []"
    using that by (rule dialogueText_first)
  show "firstDialogueOnly (DialogueBlock c (pre @ Dialogue d # post))
      = DialogueBlock c (pre @ Dialogue d # filter isParenthetical post)"
    if "filter isDialogue pre = []"
    using that by (induction pre) (simp_all split: if_splits)
  show "map dialogue clips = map (\<lambda>i. dialogueText (els ! i)) (spokenIndices els)"
    if "snd (speechStage sv voices els) = Inr clips" for clips
    using that by (rule speechStage_success(2))
  show "speechTexts (fst (speechStage sv voices els))
      = map (\<lambda>i. promptText (els ! i)) (spokenIndices els)"
    if "snd (speechStage sv voices els) = Inr clips" for clips
    using that by (rule speechStage_success(4))
qed


lemma speechStage_answered:
  "answered sv voices 0 (dialogueBlocks els) \<Longrightarrow> \<exists>clips. snd (speechStage sv voices els) = Inr clips"
  using speechLoop_answered [of sv voices 0 "dialogueBlocks els" "[]" "[]"]
  by (simp add: speechStage_def)

lemma speechStage_ursulaScene:
  "speechStage scenarioServices [''URSULA'' \<mapsto> ''Kore''] ursulaScene =
     ([GenerateSpeech ''(speaking in a cheerful tone) Hello.'' (Own ''Kore'')],
      Inr [\<lparr>sceneIndex = 1,
             audioBlob =
               \<lparr>blobBytes =
                  [82, 73, 70, 70, 40, 0, 0, 0, 87, 65, 86, 69, 102, 109, 116, 32, 16, 0, 0, 0,
                   1, 0, 1, 0, 192, 93, 0, 0, 128, 187, 0, 0, 2, 0, 16, 0, 100, 97, 116, 97,
                   4, 0, 0, 0, 0, 0, 0, 0],
                blobType = ''audio/wav''\<rparr>,
             duration = 1 / 12000, audioCharacter = ''URSULA'', dialogue = ''Hello.''\<rparr>])"
  by (simp add: speech_eval ursulaScene_def generateSpeech_scenario decode_scenario
      byteAt_Suc_0 SAMPLE_RATE_def pcmToWav_layout [unfolded SAMPLE_RATE_def])

lemma voiceAssignment_ursulaScene:
  "voiceAssignment scenarioServices ursulaPremise ursulaScene =
     Inr \<lparr>characterVoices = [''URSULA'' \<mapsto> ''Kore''],
          assignedGenders = [''URSULA'' \<mapsto> Female],
          maleVoiceIndex = 0, femaleVoiceIndex = 1\<rparr>"
  by (simp add: voiceAssignment_def dialogueBlocks_def ursulaScene_def assignVoice_def
      emptyVoiceTable_def getProperty_def objectPrototypeKeys_def scenarioServices_def Let_def
      toLowerCase_def toLowerCaseChar_def FEMALE_VOICES_def MALE_VOICES_def ursulaPremise_def)

theorem encoder_input_is_decoded_payload_witness:
  "\<exists>clips. snd (speechStage scenarioServices [''URSULA'' \<mapsto> ''Kore''] ursulaScene) = Inr clips
     \<and> length clips = 1
     \<and> list_all (\<lambda>clip. decode scenarioServices ''AAAAAA=='' = Inr (sampleBytes clip)) clips
     \<and> list_all (\<lambda>clip. even (length (sampleBytes clip))) clips"
proof -
  let ?clips = "[\<lparr>sceneIndex = 1,
             audioBlob =
               \<lparr>blobBytes =
                  [82, 73, 70, 70, 40, 0, 0, 0, 87, 65, 86, 69, 102, 109, 116, 32, 16, 0, 0, 0,
                   1, 0, 1, 0, 192, 93, 0, 0, 128, 187, 0, 0, 2, 0, 16, 0, 100, 97, 116, 97,
                   4, 0, 0, 0, 0, 0, 0, 0 :: byte],
                blobType = ''audio/wav''\<rparr>,
             duration = 1 / 12000, audioCharacter = ''URSULA'', dialogue = ''Hello.''\<rparr>]"
  have run: "snd (speechStage scenarioServices [''URSULA'' \<mapsto> ''Kore''] ursulaScene)
      = Inr ?clips"
    by (simp add: speechStage_ursulaScene)
  have ev: "\<forall>k t v payload pcm. generateSpeech scenarioServices k t v = Inr payload
              \<longrightarrow> decode scenarioServices payload = Inr pcm \<longrightarrow> even (length pcm)"
    by (auto simp: generateSpeech_scenario decode_scenario)
  from encoder_input_is_decoded_payload [OF run] ev
  have "\<forall>clip \<in> set ?clips. even (length (sampleBytes clip))" by blast
  then have "list_all (\<lambda>clip. even (length (sampleBytes clip))) ?clips"
    by (simp only: list_all_iff)
  moreover have "list_all (\<lambda>clip. decode scenarioServices ''AAAAAA=='' = Inr (sampleBytes clip))
      ?clips"
    by (simp add: decode_scenario sampleBytes_def)
  ultimately show ?thesis using run by auto
qed

theorem encoder_input_odd_counterexample:
  "map_sum id (map sampleBytes)
       (snd (speechStage oddPayloadServices [''URSULA'' \<mapsto> ''Kore''] ursulaScene))
     = Inr [[0]]
   \<and> decode oddPayloadServices ''AA=='' = Inr [0]
   \<and> odd (length [0 :: byte])"
  by (simp add: speechStage_oddPayload sampleBytes_def decode_oddPayload)

theorem only_first_dialogue_is_spoken_witness:
  "filter isDialogue [Parenthetical ''calm''] = []
   \<and> dialogueText (DialogueBlock ''URSULA''
         ([Parenthetical ''calm''] @ Dialogue ''Bye.'' # [Parenthetical ''sad'', Dialogue ''Really.'']))
       = ''Bye.''
   \<and> firstDialogueOnly (DialogueBlock ''URSULA''
         ([Parenthetical ''calm''] @ Dialogue ''Bye.'' # [Parenthetical ''sad'', Dialogue ''Really.'']))
       = DialogueBlock ''URSULA'' [Parenthetical ''calm'', Dialogue ''Bye.'', Parenthetical ''sad'']
   \<and> (\<exists>clips. snd (speechStage scenarioServices [''URSULA'' \<mapsto> ''Kore''] pauseScene)
           = Inr clips \<and> map dialogue clips = [''Hello.'', ''Bye.''])
   \<and> speechTexts (fst (speechStage scenarioServices [''URSULA'' \<mapsto> ''Kore''] pauseScene))
       = [''Hello.'', ''(speaking in a sad tone) Bye.'']"
proof -
  obtain clips where run:
    "snd (speechStage scenarioServices [''URSULA'' \<mapsto> ''Kore''] pauseScene) = Inr clips"
    using speechStage_answered [OF answered_scenario] by blast
  have texts: "map (\<lambda>i. dialogueText (pauseScene ! i)) (spokenIndices pauseScene)
      = [''Hello.'', ''Bye.'']"
    by (simp add: spokenIndices_pauseScene) (simp add: pauseScene_def dialogueText_def orEmpty_def)
  have prompts: "map (\<lambda>i. promptText (pauseScene ! i)) (spokenIndices pauseScene)
      = [''Hello.'', ''(speaking in a sad tone) Bye.'']"
    by (simp add: spokenIndices_pauseScene)
      (simp add: pauseScene_def promptText_def dialogueText_def orEmpty_def truthy_def)
  note inst = only_first_dialogue_is_spoken [of scenarioServices "[''URSULA'' \<mapsto> ''Kore'']"
      pauseScene "[Parenthetical ''calm'']" "''URSULA''" "''Bye.''"
      "[Parenthetical ''sad'', Dialogue ''Really.'']"]
  from inst run texts prompts
  have "map dialogue clips = [''Hello.'', ''Bye.'']"
    and "speechTexts (fst (speechStage scenarioServices [''URSULA'' \<mapsto> ''Kore''] pauseScene))
       = [''Hello.'', ''(speaking in a sad tone) Bye.'']"
    by simp_all
  moreover from inst
  have "dialogueText (DialogueBlock ''URSULA''
         ([Parenthetical ''calm''] @ Dialogue ''Bye.'' # [Parenthetical ''sad'', Dialogue ''Really.'']))
       = ''Bye.''"
    and "firstDialogueOnly (DialogueBlock ''URSULA''
         ([Parenthetical ''calm''] @ Dialogue ''Bye.'' # [Parenthetical ''sad'', Dialogue ''Really.'']))
       = DialogueBlock ''URSULA'' [Parenthetical ''calm'', Dialogue ''Bye.'', Parenthetical ''sad'']"
    by simp_all
  ultimately show ?thesis using run by simp
qed

section \<open>Properties of a generation run\<close>

lemma indicesOk_errorMessage [simp]: "indicesOk (st\<lparr>errorMessage := e\<rparr>) = indicesOk st"
  by (simp add: indicesOk_def split: option.split)

lemma handleGenerate_indicesOk:
  assumes "indicesOk st"
  shows "indicesOk (handleGenerate sv userInput storyElements ci st)"
proof (cases "trim userInput = [] \<or> storyElements = None")
  case True
  with assms show ?thesis by (auto simp: handleGenerate_def)
next
  case False
  then obtain se where se: "storyElements = Some se" and inp: "trim userInput \<noteq> []"
    by auto
  show ?thesis
  proof (cases "generateStory sv (constructFinalPrompt se userInput)")
    case (Inl e)
    with se inp show ?thesis by (simp add: handleGenerate_def indicesOk_def)
  next
    case (Inr script)
    note story = this
    show ?thesis
    proof (cases "snd (imageStage sv ci (scene_elements script))")
      case (Inl e)
      with se inp story show ?thesis by (simp add: handleGenerate_def indicesOk_def)
    next
      case (Inr images)
      note img = this
      have idx: "map sceneIndex images = actionIndices (scene_elements script)"
        using img by (rule imageStage_success(2))
      show ?thesis
      proof (cases "voiceAssignment sv se (scene_elements script)")
        case (Inl e)
        with se inp story img idx show ?thesis by (simp add: handleGenerate_def indicesOk_def)
      next
        case (Inr t)
        note voices = this
        show ?thesis
        proof (cases "snd (speechStage sv (characterVoices t) (scene_elements script))")
          case (Inl e)
          with se inp story img idx voices show ?thesis
            by (simp add: handleGenerate_def indicesOk_def)
        next
          case (Inr clips)
          with se inp story img idx voices speechStage_success(1) [OF Inr]
            speechStage_success(3) [OF Inr]
          show ?thesis
            by (simp add: handleGenerate_def indicesOk_def)
        qed
      qed
    qed
  qed
qed

lemma indicesOk_images:
  assumes "indicesOk st" and "img \<in> set (generatedImages st)"
  shows "\<exists>script. scriptData st = Some script
           \<and> sceneIndex img < length (scene_elements script)
           \<and> isAction (scene_elements script ! sceneIndex img)
           \<and> truthy (content (scene_elements script ! sceneIndex img))"
proof (cases "scriptData st")
  case None
  with assms show ?thesis by (simp add: indicesOk_def)
next
  case (Some script)
  with assms have "map sceneIndex (generatedImages st) = actionIndices (scene_elements script)"
    by (auto simp: indicesOk_def)
  moreover from assms(2) have "sceneIndex img \<in> set (map sceneIndex (generatedImages st))"
    by simp
  ultimately have "sceneIndex img \<in> set (actionIndices (scene_elements script))"
    by (simp only:)
  with Some show ?thesis by (simp add: actionIndices_iff)
qed

lemma indicesOk_audio:
  assumes "indicesOk st" and "clip \<in> set (generatedAudio st)"
  shows "\<exists>script. scriptData st = Some script
           \<and> sceneIndex clip < length (scene_elements script)
           \<and> isDialogueBlock (scene_elements script ! sceneIndex clip)
           \<and> dialogueText (scene_elements script ! sceneIndex clip) \<noteq> []
           \<and> audioCharacter clip = character (scene_elements script ! sceneIndex clip)"
proof (cases "scriptData st")
  case None
  with assms show ?thesis by (simp add: indicesOk_def)
next
  case (Some script)
  let ?els = "scene_elements script"
  from Some assms have idx: "map sceneIndex (generatedAudio st) = spokenIndices ?els"
    and chr: "map audioCharacter (generatedAudio st)
        = map (\<lambda>i. character (?els ! i)) (spokenIndices ?els)"
    by (auto simp: indicesOk_def)
  from assms(2) have "sceneIndex clip \<in> set (map sceneIndex (generatedAudio st))"
    by simp
  then have mem: "sceneIndex clip \<in> set (spokenIndices ?els)"
    by (simp only: idx)
  from chr have "map audioCharacter (generatedAudio st)
      = map (\<lambda>i. character (?els ! i)) (map sceneIndex (generatedAudio st))"
    by (simp only: idx)
  then have "map audioCharacter (generatedAudio st)
      = map (\<lambda>c. character (?els ! sceneIndex c)) (generatedAudio st)"
    by (simp add: comp_def)
  with assms(2) have "audioCharacter clip = character (?els ! sceneIndex clip)"
    by (simp add: map_eq_conv)
  with mem Some show ?thesis by (simp add: spokenIndices_iff)
qed

lemma indicesOk_sorted:
  assumes "indicesOk st"
  shows "sorted_wrt (<) (map sceneIndex (generatedImages st))"
    and "sorted_wrt (<) (map sceneIndex (generatedAudio st))"
  using assms sorted_actionIndices sorted_spokenIndices
  by (auto simp: indicesOk_def split: option.splits)

text \<open>
  C8. Every run of \<open>handleGenerate\<close> keeps the relation \<open>indicesOk\<close> between the stored script
  and the two asset lists, whatever its inputs and wherever it stops. In the state a run
  leaves, the scene indices of the image list and of the audio list are strictly increasing
  in generation order (so unique and non-decreasing), every image's index is the position of
  an action with non-empty content in the stored script, and every clip's index is the
  position of a dialogue block with dialogue text, spoken by the clip's character.
\<close>

theorem sceneIndex_invariant:
  assumes "indicesOk st0" and "st = handleGenerate sv userInput storyElements ci st0"
  shows "indicesOk st
       \<and> sorted_wrt (<) (map sceneIndex (generatedImages st))
       \<and> distinct (map sceneIndex (generatedImages st))
       \<and> sorted_wrt (<) (map sceneIndex (generatedAudio st))
       \<and> distinct (map sceneIndex (generatedAudio st))
       \<and> (\<forall>img \<in> set (generatedImages st). \<exists>script. scriptData st = Some script
             \<and> sceneIndex img < length (scene_elements script)
             \<and> isAction (scene_elements script ! sceneIndex img)
             \<and> truthy (content (scene_elements script ! sceneIndex img)))
       \<and> (\<forall>clip \<in> set (generatedAudio st). \<exists>script. scriptData st = Some script
             \<and> sceneIndex clip < length (scene_elements script)
             \<and> isDialogueBlock (scene_elements script ! sceneIndex clip)
             \<and> dialogueText (scene_elements script ! sceneIndex clip) \<noteq> []
             \<and> audioCharacter clip = character (scene_elements script ! sceneIndex clip))"
proof -
  have ok: "indicesOk st"
    using assms by (simp add: handleGenerate_indicesOk)
  from indicesOk_sorted [OF ok]
  have "distinct (map sceneIndex (generatedImages st))"
    and "distinct (map sceneIndex (generatedAudio st))"
    by (simp_all add: strict_sorted_iff)
  with ok indicesOk_sorted [OF ok] indicesOk_images [OF ok] indicesOk_audio [OF ok]
  show ?thesis by blast
qed

lemma generateStory_scenario: "generateStory scenarioServices p = Inr ursulaScript"
  by (simp add: generateStory_def scenarioServices_def)

lemma trim_idea: "trim ''A saucer lands'' \<noteq> []"
  by (simp add: trim_def isWhiteSpace_def)

lemma handleGenerate_scenario:
  "handleGenerate scenarioServices ''A saucer lands'' (Some ursulaPremise) Map.empty initialState =
     \<lparr>errorMessage = None, scriptData = Some ursulaScript,
      generatedImages =
        [\<lparr>sceneIndex = 0, imageUrl = ''data:image/png;base64,iVBORw0KGgo=''\<rparr>,
         \<lparr>sceneIndex = 2, imageUrl = ''data:image/png;base64,iVBORw0KGgo=''\<rparr>],
      generatedAudio =
        [\<lparr>sceneIndex = 1,
          audioBlob =
            \<lparr>blobBytes =
               [82, 73, 70, 70, 40, 0, 0, 0, 87, 65, 86, 69, 102, 109, 116, 32, 16, 0, 0, 0,
                1, 0, 1, 0, 192, 93, 0, 0, 128, 187, 0, 0, 2, 0, 16, 0, 100, 97, 116, 97,
                4, 0, 0, 0, 0, 0, 0, 0],
             blobType = ''audio/wav''\<rparr>,
          duration = 1 / 12000, audioCharacter = ''URSULA'', dialogue = ''Hello.''\<rparr>]\<rparr>"
  by (simp add: handleGenerate_def trim_idea generateStory_scenario ursulaScript_def
      imageStage_ursulaScene voiceAssignment_ursulaScene speechStage_ursulaScene initialState_def)

theorem sceneIndex_invariant_witness:
  "indicesOk initialState
   \<and> map sceneIndex (generatedImages
         (handleGenerate scenarioServices ''A saucer lands'' (Some ursulaPremise) Map.empty
            initialState)) = [0, 2]
   \<and> map sceneIndex (generatedAudio
         (handleGenerate scenarioServices ''A saucer lands'' (Some ursulaPremise) Map.empty
            initialState)) = [1]
   \<and> indicesOk
         (handleGenerate scenarioServices ''A saucer lands'' (Some ursulaPremise) Map.empty
            initialState)
   \<and> distinct (map sceneIndex (generatedImages
         (handleGenerate scenarioServices ''A saucer lands'' (Some ursulaPremise) Map.empty
            initialState)))"
proof -
  have init: "indicesOk initialState"
    by (simp add: indicesOk_def initialState_def)
  from sceneIndex_invariant [OF init refl, of scenarioServices "''A saucer lands''"
      "Some ursulaPremise" Map.empty]
  have "indicesOk
         (handleGenerate scenarioServices ''A saucer lands'' (Some ursulaPremise) Map.empty
            initialState)"
    and "distinct (map sceneIndex (generatedImages
         (handleGenerate scenarioServices ''A saucer lands'' (Some ursulaPremise) Map.empty
            initialState)))"
    by blast+
  with init show ?thesis by (simp add: handleGenerate_scenario)
qed

section \<open>Properties of voice assignment\<close>

lemma assignVoice_cong:
  assumes "character el1 = character el2" and "characters se1 = characters se2"
    and "regExpMatch sv1 = regExpMatch sv2"
  shows "assignVoice sv1 se1 t el1 = assignVoice sv2 se2 t el2"
  unfolding assignVoice_def by (simp only: assms)

lemma assignVoices_cong:
  assumes "map (character \<circ> snd) bs1 = map (character \<circ> snd) bs2"
    and "characters se1 = characters se2"
    and "regExpMatch sv1 = regExpMatch sv2"
  shows "assignVoices sv1 se1 bs1 t = assignVoices sv2 se2 bs2 t"
  using assms(1)
proof (induction bs1 arbitrary: bs2 t)
  case Nil
  then show ?case by simp
next
  case (Cons b bs1)
  then obtain c cs where bs2: "bs2 = c # cs" by (cases bs2) auto
  with Cons.prems have hd: "character (snd b) = character (snd c)"
    and tl: "map (character \<circ> snd) bs1 = map (character \<circ> snd) cs"
    by (simp_all add: comp_def)
  have step: "assignVoice sv1 se1 t (snd b) = assignVoice sv2 se2 t (snd c)"
    using hd assms(2,3) by (rule assignVoice_cong)
  show ?case
    by (simp add: bs2 step Cons.IH [OF tl] split: sum.split)
qed

text \<open>
  C4. The outcome of voice assignment (the table of voices, or the error) is a function of
  the character names of the dialogue blocks in document order and of the premise's
  characters text alone: two runs that agree on these (and use the same regular-expression
  engine) end with the same table, whatever else differs in the scripts, in the rest of the
  premise or in the other services.
\<close>

theorem voice_assignment_deterministic:
  assumes "map (character \<circ> snd) (dialogueBlocks els1)
             = map (character \<circ> snd) (dialogueBlocks els2)"
    and "characters se1 = characters se2"
    and "regExpMatch sv1 = regExpMatch sv2"
  shows "voiceAssignment sv1 se1 els1 = voiceAssignment sv2 se2 els2"
  unfolding voiceAssignment_def using assms by (rule assignVoices_cong)

theorem voice_assignment_deterministic_witness:
  "map (character \<circ> snd) (dialogueBlocks ursulaScene)
     = map (character \<circ> snd)
         (dialogueBlocks [Transition None, DialogueBlock ''URSULA'' [Dialogue ''Other words.'']])
   \<and> characters ursulaPremise = characters (ursulaPremise\<lparr>story := ''Another story''\<rparr>)
   \<and> regExpMatch scenarioServices = regExpMatch oddPayloadServices
   \<and> voiceAssignment oddPayloadServices (ursulaPremise\<lparr>story := ''Another story''\<rparr>)
         [Transition None, DialogueBlock ''URSULA'' [Dialogue ''Other words.'']]
       = Inr \<lparr>characterVoices = [''URSULA'' \<mapsto> ''Kore''],
              assignedGenders = [''URSULA'' \<mapsto> Female],
              maleVoiceIndex = 0, femaleVoiceIndex = 1\<rparr>"
proof -
  have a: "map (character \<circ> snd) (dialogueBlocks ursulaScene)
     = map (character \<circ> snd)
         (dialogueBlocks [Transition None, DialogueBlock ''URSULA'' [Dialogue ''Other words.'']])"
    by (simp add: dialogueBlocks_def ursulaScene_def)
  have b: "characters ursulaPremise = characters (ursulaPremise\<lparr>story := ''Another story''\<rparr>)"
    by simp
  have c: "regExpMatch scenarioServices = regExpMatch oddPayloadServices"
    by (simp add: oddPayloadServices_def)
  from voice_assignment_deterministic [OF a b c] a b c show ?thesis
    by (simp add: voiceAssignment_ursulaScene)
qed


lemma set_firstSeen [simp]: "set (firstSeen xs) = set xs"
  by (induction xs) auto

lemma distinct_firstSeen [simp]: "distinct (firstSeen xs)"
  by (induction xs) simp_all

lemma firstSeen_snoc:
  "firstSeen (xs @ [n]) = (if n \<in> set xs then firstSeen xs else firstSeen xs @ [n])"
  by (induction xs) auto

lemma indexOf_None_iff: "indexOf xs n = None \<longleftrightarrow> n \<notin> set xs"
  by (induction xs) auto

lemma indexOf_snoc:
  "indexOf (xs @ [m]) n =
     (case indexOf xs n of
        Some k \<Rightarrow> Some k
      | None \<Rightarrow> if m = n then Some (length xs) else None)"
  by (induction xs) (auto split: option.splits)

lemma indexOf_nth:
  "distinct xs \<Longrightarrow> k < length xs \<Longrightarrow> indexOf xs (xs ! k) = Some k"
proof (induction xs arbitrary: k)
  case Nil
  then show ?case by simp
next
  case (Cons x xs)
  then show ?case by (cases k) auto
qed

lemma male_voice_nonempty: "MALE_VOICES ! (k mod length MALE_VOICES) \<noteq> []"
proof -
  have "k mod length MALE_VOICES < length MALE_VOICES"
    by (simp add: MALE_VOICES_def)
  then have "MALE_VOICES ! (k mod length MALE_VOICES) \<in> set MALE_VOICES"
    by (rule nth_mem)
  then show ?thesis by (auto simp: MALE_VOICES_def)
qed

lemma assignVoice_male:
  assumes inv: "maleOnly t seen"
    and proto: "character el \<notin> set objectPrototypeKeys"
    and nomatch: "regExpMatch sv (genderRegexSource (character el)) (characters se) = Inr None"
  shows "\<exists>t'. assignVoice sv se t el = Inr t' \<and> maleOnly t' (seen @ [character el])"
proof (cases "character el \<in> set seen")
  case True
  then obtain k where k: "indexOf (firstSeen seen) (character el) = Some k"
    using indexOf_None_iff [of "firstSeen seen" "character el"] by auto
  with inv have "getProperty (characterVoices t) (character el)
      = Own (MALE_VOICES ! (k mod length MALE_VOICES))"
    by (simp add: maleOnly_def getProperty_def)
  then have "assignVoice sv se t el = Inr t"
    by (simp add: assignVoice_def male_voice_nonempty)
  moreover from inv True have "maleOnly t (seen @ [character el])"
    by (simp add: maleOnly_def firstSeen_snoc)
  ultimately show ?thesis by blast
next
  case False
  then have none: "indexOf (firstSeen seen) (character el) = None"
    by (simp add: indexOf_None_iff)
  with inv proto have v: "getProperty (characterVoices t) (character el) = Undefined"
    and g: "getProperty (assignedGenders t) (character el) = Undefined"
    by (simp_all add: maleOnly_def getProperty_def)
  let ?t' = "t\<lparr>characterVoices := (characterVoices t)
                  (character el \<mapsto> MALE_VOICES ! (maleVoiceIndex t mod length MALE_VOICES)),
                maleVoiceIndex := maleVoiceIndex t + 1\<rparr>"
  have step: "assignVoice sv se t el = Inr ?t'"
    by (simp add: assignVoice_def v g nomatch)
  have "characterVoices ?t' =
          (\<lambda>n. map_option (\<lambda>k. MALE_VOICES ! (k mod length MALE_VOICES))
                 (indexOf (firstSeen (seen @ [character el])) n))"
  proof
    fix n
    show "characterVoices ?t' n =
          map_option (\<lambda>k. MALE_VOICES ! (k mod length MALE_VOICES))
            (indexOf (firstSeen (seen @ [character el])) n)"
      using inv False none
      by (auto simp: maleOnly_def firstSeen_snoc indexOf_snoc split: option.splits)
  qed
  with inv False have "maleOnly ?t' (seen @ [character el])"
    by (simp add: maleOnly_def firstSeen_snoc)
  with step show ?thesis by blast
qed

lemma assignVoices_male:
  assumes "maleOnly t seen"
    and "\<forall>b \<in> set bs. character (snd b) \<notin> set objectPrototypeKeys
           \<and> regExpMatch sv (genderRegexSource (character (snd b))) (characters se) = Inr None"
  shows "\<exists>t'. assignVoices sv se bs t = Inr t'
           \<and> maleOnly t' (seen @ map (character \<circ> snd) bs)"
  using assms
proof (induction bs arbitrary: t seen)
  case Nil
  then show ?case by simp
next
  case (Cons b bs)
  from Cons.prems obtain t1 where
    step: "assignVoice sv se t (snd b) = Inr t1"
    and inv1: "maleOnly t1 (seen @ [character (snd b)])"
    using assignVoice_male [of t seen "snd b" sv se] by auto
  from Cons.prems(2) have rest:
    "\<forall>b \<in> set bs. character (snd b) \<notin> set objectPrototypeKeys
       \<and> regExpMatch sv (genderRegexSource (character (snd b))) (characters se) = Inr None"
    by simp
  from Cons.IH [OF inv1 rest] obtain t' where
    "assignVoices sv se bs t1 = Inr t'"
    "maleOnly t' ((seen @ [character (snd b)]) @ map (character \<circ> snd) bs)"
    by blast
  with step show ?case by (simp add: comp_def)
qed

lemma maleOnly_empty: "maleOnly emptyVoiceTable []"
  by (simp add: maleOnly_def emptyVoiceTable_def)

lemma voice_round_robin:
  assumes "\<forall>b \<in> set (dialogueBlocks els). character (snd b) \<notin> set objectPrototypeKeys
           \<and> regExpMatch sv (genderRegexSource (character (snd b))) (characters se) = Inr None"
  shows "\<exists>t. voiceAssignment sv se els = Inr t
         \<and> maleVoiceIndex t = length (firstSeen (map (character \<circ> snd) (dialogueBlocks els)))
         \<and> femaleVoiceIndex t = 0
         \<and> (\<forall>k < length (firstSeen (map (character \<circ> snd) (dialogueBlocks els))).
               characterVoices t (firstSeen (map (character \<circ> snd) (dialogueBlocks els)) ! k)
                 = Some (MALE_VOICES ! (k mod length MALE_VOICES)))"
proof -
  let ?names = "firstSeen (map (character \<circ> snd) (dialogueBlocks els))"
  from assignVoices_male [OF maleOnly_empty assms] obtain t where
    run: "voiceAssignment sv se els = Inr t"
    and inv: "maleOnly t (map (character \<circ> snd) (dialogueBlocks els))"
    by (auto simp: voiceAssignment_def)
  have "characterVoices t (?names ! k) = Some (MALE_VOICES ! (k mod length MALE_VOICES))"
    if "k < length ?names" for k
    using inv that by (simp add: maleOnly_def indexOf_nth)
  with run inv show ?thesis by (auto simp: maleOnly_def)
qed

lemma voice_round_robin_example:
  "\<exists>t. voiceAssignment scenarioServices \<lparr>characters = [], story = [], today = []\<rparr>
          [DialogueBlock ''REX'' [], Action None, DialogueBlock ''ZOG'' [],
           DialogueBlock ''REX'' [], DialogueBlock ''MIA'' []] = Inr t
     \<and> characterVoices t ''REX'' = Some ''Puck''
     \<and> characterVoices t ''ZOG'' = Some ''Charon''
     \<and> characterVoices t ''MIA'' = Some ''Fenrir''"
proof -
  let ?els = "[DialogueBlock ''REX'' [], Action None, DialogueBlock ''ZOG'' [],
           DialogueBlock ''REX'' [], DialogueBlock ''MIA'' []]"
  let ?se = "\<lparr>characters = [], story = [], today = []\<rparr>"
  have names: "firstSeen (map (character \<circ> snd) (dialogueBlocks ?els)) = [''REX'', ''ZOG'', ''MIA'']"
    by (simp add: dialogueBlocks_def)
  have hyp: "\<forall>b \<in> set (dialogueBlocks ?els). character (snd b) \<notin> set objectPrototypeKeys
           \<and> regExpMatch scenarioServices (genderRegexSource (character (snd b))) (characters ?se)
               = Inr None"
    by (simp add: dialogueBlocks_def objectPrototypeKeys_def scenarioServices_def)
  from voice_round_robin [OF hyp] obtain t where
    run: "voiceAssignment scenarioServices ?se ?els = Inr t"
    and rr: "\<forall>k < 3. characterVoices t ([''REX'', ''ZOG'', ''MIA''] ! k)
                 = Some (MALE_VOICES ! (k mod length MALE_VOICES))"
    by (auto simp: names)
  from rr [rule_format, of 0] rr [rule_format, of 1] rr [rule_format, of 2]
  have "characterVoices t ''REX'' = Some ''Puck''"
    and "characterVoices t ''ZOG'' = Some ''Charon''"
    and "characterVoices t ''MIA'' = Some ''Fenrir''"
    by (simp_all add: MALE_VOICES_def)
  with run show ?thesis by blast
qed

text \<open>
  One step of the assignment: a character that already reads as assigned changes nothing;
  otherwise the voice comes from the female pool exactly when the recorded gender is female
  (the pool is never empty), else from the male pool, and only that pool's cursor advances.
\<close>

lemma assignVoice_pools:
  assumes "assignVoice sv se t el = Inr t'"
  shows "(truthyVoice (getProperty (characterVoices t) (character el)) \<and> t' = t)
       \<or> (getProperty (assignedGenders t') (character el) = Own Female
            \<and> characterVoices t' = (characterVoices t)
                 (character el \<mapsto> FEMALE_VOICES ! (femaleVoiceIndex t mod length FEMALE_VOICES))
            \<and> femaleVoiceIndex t' = femaleVoiceIndex t + 1
            \<and> maleVoiceIndex t' = maleVoiceIndex t)
       \<or> (getProperty (assignedGenders t') (character el) \<noteq> Own Female
            \<and> characterVoices t' = (characterVoices t)
                 (character el \<mapsto> MALE_VOICES ! (maleVoiceIndex t mod length MALE_VOICES))
            \<and> maleVoiceIndex t' = maleVoiceIndex t + 1
            \<and> femaleVoiceIndex t' = femaleVoiceIndex t)"
  using assms
  by (auto simp: assignVoice_def Let_def FEMALE_VOICES_def
      split: if_splits sum.splits option.splits)

text \<open>
  C3 (the code at the failing input). The first three characters without a gender marker do
  get the first three male voices (\<open>voice_round_robin\<close> above, for names that are not members
  of \<^verbatim>\<open>Object.prototype\<close>). For a character whose name is such a member the read
  \<^verbatim>\<open>characterVoices[characterName]\<close> is truthy before anything was assigned, so the character
  gets no voice, no cursor moves, and the speech request carries the inherited member
  instead of \<open>Puck\<close>, the first male voice.
\<close>

theorem voice_assignment_prototype_name:
  "voiceAssignment scenarioServices \<lparr>characters = [], story = [], today = []\<rparr>
       [DialogueBlock ''constructor'' [Dialogue ''Hi.'']] = Inr emptyVoiceTable
   \<and> characterVoices emptyVoiceTable ''constructor'' = None
   \<and> MALE_VOICES ! (0 mod length MALE_VOICES) = ''Puck''
   \<and> fst (speechStage scenarioServices (characterVoices emptyVoiceTable)
            [DialogueBlock ''constructor'' [Dialogue ''Hi.'']])
       = [GenerateSpeech ''Hi.'' Inherited]"
  by (simp add: voiceAssignment_def dialogueBlocks_def assignVoice_def emptyVoiceTable_def
      getProperty_def objectPrototypeKeys_def MALE_VOICES_def speech_eval
      generateSpeech_scenario decode_scenario)

section \<open>Properties of the asset bundler\<close>

declare decimal.simps [simp del]

lemma padStart_zero: "padStart 4 ''0'' s = replicate (4 - length s) CHR ''0'' @ s"
proof -
  have "concat (replicate k ''0'') = replicate k CHR ''0''" for k
    by (induction k) simp_all
  then show ?thesis by (simp add: padStart_def)
qed

lemma decimal_small:
  "n < 10 \<Longrightarrow> decimal n = [digitChar n]"
  "10 \<le> n \<Longrightarrow> decimal n = decimal (n div 10) @ [digitChar (n mod 10)]"
  by (simp_all add: decimal.simps [of n])

lemma padStart_short:
  "padStart 4 ''0'' [a] = [CHR ''0'', CHR ''0'', CHR ''0'', a]"
  "padStart 4 ''0'' [a, b] = [CHR ''0'', CHR ''0'', a, b]"
  "padStart 4 ''0'' [a, b, c] = [CHR ''0'', a, b, c]"
  "padStart 4 ''0'' [a, b, c, d] = [a, b, c, d]"
  unfolding padStart_zero by (simp_all add: eval_nat_numeral)

lemma entryName_digits:
  assumes "n < 10000"
  shows "entryName n ext =
           [digitChar (n div 1000), digitChar (n div 100 mod 10), digitChar (n div 10 mod 10),
            digitChar (n mod 10)] @ ext"
proof -
  have zero: "digitChar 0 = CHR ''0''" by (simp add: digitChar_def)
  consider "n < 10" | "10 \<le> n" "n < 100" | "100 \<le> n" "n < 1000" | "1000 \<le> n"
    by linarith
  then have "padStart 4 ''0'' (decimal n) =
           [digitChar (n div 1000), digitChar (n div 100 mod 10), digitChar (n div 10 mod 10),
            digitChar (n mod 10)]"
  proof cases
    case 1
    then have "decimal n = [digitChar n]" by (simp add: decimal_small)
    with 1 show ?thesis by (simp add: padStart_short zero)
  next
    case 2
    then have a: "n div 10 < 10" "n div 100 = 0" "n div 1000 = 0" by simp_all
    with 2 have "decimal n = [digitChar (n div 10), digitChar (n mod 10)]"
      by (simp add: decimal_small)
    with a show ?thesis by (simp add: padStart_short zero)
  next
    case 3
    then have a: "n div 10 div 10 < 10" "10 \<le> n div 10" "n div 1000 = 0" by simp_all
    have b: "n div 10 div 10 = n div 100" by (simp add: div_mult2_eq [symmetric])
    from 3 a have "decimal n
        = [digitChar (n div 10 div 10), digitChar (n div 10 mod 10), digitChar (n mod 10)]"
      by (simp add: decimal_small)
    with a b show ?thesis by (simp add: padStart_short zero)
  next
    case 4
    with assms have a: "n div 10 div 10 div 10 < 10" "10 \<le> n div 10 div 10" "10 \<le> n div 10"
      by simp_all
    have b: "n div 10 div 10 = n div 100" "n div 10 div 10 div 10 = n div 1000"
      by (simp_all add: div_mult2_eq [symmetric])
    from 4 a have "decimal n
        = [digitChar (n div 10 div 10 div 10), digitChar (n div 10 div 10 mod 10),
           digitChar (n div 10 mod 10), digitChar (n mod 10)]"
      by (simp add: decimal_small)
    with b show ?thesis by (simp add: padStart_short)
  qed
  then show ?thesis by (simp add: entryName_def)
qed

lemma digitValue_digitChar: "d < 10 \<Longrightarrow> digitValue (digitChar d) = d"
proof -
  assume "d < 10"
  then have "d = 0 \<or> d = 1 \<or> d = 2 \<or> d = 3 \<or> d = 4 \<or> d = 5 \<or> d = 6 \<or> d = 7
    \<or> d = 8 \<or> d = 9"
    by arith
  then show ?thesis
    by (elim disjE) (simp_all add: digitValue_def digitChar_def)
qed

lemma parseDecimal_snoc: "parseDecimal (s @ [c]) = 10 * parseDecimal s + digitValue c"
  by (simp add: parseDecimal_def)

lemma parseDecimal_decimal: "parseDecimal (decimal n) = n"
proof (induction n rule: decimal.induct)
  case (1 n)
  show ?case
  proof (cases "n < 10")
    case True
    then show ?thesis
      by (simp add: decimal_small parseDecimal_def digitValue_digitChar)
  next
    case False
    with 1 have "parseDecimal (decimal (n div 10)) = n div 10" by simp
    with False show ?thesis
      by (simp add: decimal_small parseDecimal_snoc digitValue_digitChar)
  qed
qed

lemma parseDecimal_zeros: "parseDecimal (replicate k CHR ''0'' @ s) = parseDecimal s"
proof -
  have "foldl (\<lambda>acc c. 10 * acc + digitValue c) 0 (replicate k CHR ''0'') = 0"
    by (induction k) (simp_all add: digitValue_def)
  then show ?thesis by (simp add: parseDecimal_def)
qed

lemma entryName_inj: "entryName a ext = entryName b ext \<longleftrightarrow> a = b"
proof
  assume "entryName a ext = entryName b ext"
  then have "padStart 4 ''0'' (decimal a) = padStart 4 ''0'' (decimal b)"
    by (simp add: entryName_def)
  then have "parseDecimal (padStart 4 ''0'' (decimal a))
      = parseDecimal (padStart 4 ''0'' (decimal b))"
    by simp
  then show "a = b"
    by (simp add: padStart_zero parseDecimal_zeros parseDecimal_decimal)
qed simp

lemma names_zipFile: "fst ` set (zipFile z name d) = insert name (fst ` set z)"
  by (simp add: zipFile_def dom_update)

lemma names_addImages:
  "fst ` set (addImages z images)
     = fst ` set z \<union> (\<lambda>img. ''images/'' @ entryName (sceneIndex img) ''.png'') ` set images"
  by (induction images arbitrary: z) (auto simp: names_zipFile)

lemma names_addAudio:
  "fst ` set (addAudio z audioClips)
     = fst ` set z \<union> (\<lambda>clip. ''audio/'' @ entryName (sceneIndex clip) ''.wav'') ` set audioClips"
  by (induction audioClips arbitrary: z) (auto simp: names_zipFile)

lemma names_buildZip:
  "fst ` set (buildZip stringify script images audioClips)
     = {''script.json'', ''story.txt'', ''images/'', ''audio/''}
       \<union> (\<lambda>img. ''images/'' @ entryName (sceneIndex img) ''.png'') ` set images
       \<union> (\<lambda>clip. ''audio/'' @ entryName (sceneIndex clip) ''.wav'') ` set audioClips"
  by (auto simp: buildZip_def Let_def zipFolder_def names_zipFile names_addImages names_addAudio)

lemma buildZip_empty:
  "buildZip stringify script [] [] =
     [(''script.json'', Text (stringify script)), (''story.txt'', Text (scriptToText script)),
      (''images/'', Folder), (''audio/'', Folder)]"
  by (simp add: buildZip_def Let_def zipFolder_def zipFile_def)

lemma entryName_examples:
  "entryName 0 ''.png'' = ''0000.png''" "entryName 12 ''.png'' = ''0012.png''"
  "entryName 137 ''.png'' = ''0137.png''" "entryName 0 ''.wav'' = ''0000.wav''"
  "entryName 12 ''.wav'' = ''0012.wav''" "entryName 137 ''.wav'' = ''0137.wav''"
  by (simp_all add: entryName_digits digitChar_def)

text \<open>
  C7. The archive entry of an image or a clip is named by its scene index alone: the decimal
  digits of the index padded with zeros to four characters, then \<open>.png\<close> or \<open>.wav\<close>; so the
  indices 0, 12 and 137 give \<open>0000\<close>, \<open>0012\<close> and \<open>0137\<close>, every index below 10000 gives
  exactly four digits, and different indices give different names. The set of entry names of
  the archive is the four fixed entries and the names of the images and clips, whatever the
  order of the two lists. With no image and no clip the archive holds the script, the
  transcript and the two empty folders; and the download only fails when generating the
  archive does.
\<close>

theorem bundle_entry_names:
  "entryName 0 ''.png'' = ''0000.png'' \<and> entryName 12 ''.png'' = ''0012.png''
   \<and> entryName 137 ''.png'' = ''0137.png'' \<and> entryName 0 ''.wav'' = ''0000.wav''
   \<and> entryName 12 ''.wav'' = ''0012.wav'' \<and> entryName 137 ''.wav'' = ''0137.wav''
   \<and> (n < 10000 \<longrightarrow> entryName n ext =
         [digitChar (n div 1000), digitChar (n div 100 mod 10), digitChar (n div 10 mod 10),
          digitChar (n mod 10)] @ ext)
   \<and> (entryName a ext = entryName b ext \<longleftrightarrow> a = b)
   \<and> fst ` set (buildZip stringify script images audioClips)
       = {''script.json'', ''story.txt'', ''images/'', ''audio/''}
         \<union> (\<lambda>img. ''images/'' @ entryName (sceneIndex img) ''.png'') ` set images
         \<union> (\<lambda>clip. ''audio/'' @ entryName (sceneIndex clip) ''.wav'') ` set audioClips
   \<and> buildZip stringify script [] [] =
       [(''script.json'', Text (stringify script)), (''story.txt'', Text (scriptToText script)),
        (''images/'', Folder), (''audio/'', Folder)]
   \<and> (generateAsync (buildZip stringify script images audioClips) = None \<longrightarrow>
         handleDownloadZip stringify generateAsync (Some script) images audioClips
           = Some (Downloaded (safeTitle (title script) @ ''_assets.zip'')
                     (buildZip stringify script images audioClips)))"
proof -
  have "handleDownloadZip stringify generateAsync (Some script) images audioClips
           = Some (Downloaded (safeTitle (title script) @ ''_assets.zip'')
                     (buildZip stringify script images audioClips))"
    if "generateAsync (buildZip stringify script images audioClips) = None"
    using that by (simp add: handleDownloadZip_def)
  with entryName_examples entryName_digits [of n ext] entryName_inj [of a ext b]
    names_buildZip [of stringify script images audioClips] buildZip_empty [of stringify script]
  show ?thesis by blast
qed


lemma safeTitle_ursulaScript: "safeTitle (title ursulaScript) = ''saucer_day_''"
  by (simp add: ursulaScript_def safeTitle_def isAlphaNumeric_def toLowerCase_def
      toLowerCaseChar_def)

lemma names_shuffledImages:
  "map fst (buildZip stringifyStub ursulaScript shuffledImages [])
     = [''script.json'', ''story.txt'', ''images/'', ''images/0137.png'', ''images/0000.png'',
        ''images/0012.png'', ''audio/'']"
  by (simp add: buildZip_def Let_def zipFolder_def zipFile_def shuffledImages_def
      entryName_examples)

theorem bundle_entry_names_witness:
  "(137 :: nat) < 10000
   \<and> entryName 137 ''.png''
       = [digitChar 0, digitChar 1, digitChar 3, digitChar 7] @ ''.png''
   \<and> generateAsyncOk (buildZip stringifyStub ursulaScript shuffledImages []) = None
   \<and> handleDownloadZip stringifyStub generateAsyncOk (Some ursulaScript) shuffledImages []
       = Some (Downloaded ''saucer_day__assets.zip''
                 (buildZip stringifyStub ursulaScript shuffledImages []))
   \<and> map fst (buildZip stringifyStub ursulaScript shuffledImages [])
       = [''script.json'', ''story.txt'', ''images/'', ''images/0137.png'', ''images/0000.png'',
          ''images/0012.png'', ''audio/'']"
proof -
  have ok: "generateAsyncOk (buildZip stringifyStub ursulaScript shuffledImages []) = None"
    by (simp add: generateAsyncOk_def)
  have small: "(137 :: nat) < 10000" by simp
  from bundle_entry_names [of 137 "''.png''" 0 0 stringifyStub ursulaScript shuffledImages "[]"
      generateAsyncOk] ok small
  have "entryName 137 ''.png'' = [digitChar (137 div 1000), digitChar (137 div 100 mod 10),
          digitChar (137 div 10 mod 10), digitChar (137 mod 10)] @ ''.png''"
    and "handleDownloadZip stringifyStub generateAsyncOk (Some ursulaScript) shuffledImages []
       = Some (Downloaded (safeTitle (title ursulaScript) @ ''_assets.zip'')
                 (buildZip stringifyStub ursulaScript shuffledImages []))"
    by blast+
  then show ?thesis
    using ok names_shuffledImages by (simp add: safeTitle_ursulaScript)
qed

section \<open>Properties of fetching the premise\<close>

lemmas fetch_simps = fetchStoryElements_def failingFeeds_def feedNames_def Let_def orEmpty_def

lemma fetchDescriptionFromRSS_reason:
  "fetchDescriptionFromRSS fs url = Inl r \<Longrightarrow> r = unavailableMessage url"
  by (auto simp: fetchDescriptionFromRSS_def split: sum.splits)

lemma fetchDescriptionFromRSS_cases:
  "(\<exists>seed. fetchDescriptionFromRSS fs url = Inr seed)
   \<or> fetchDescriptionFromRSS fs url = Inl (unavailableMessage url)"
  by (auto simp: fetchDescriptionFromRSS_def split: sum.splits)

lemma fetchDescriptionFromRSS_not_ok:
  "fetch fs (CORS_PROXY @ encodeURIComponent url) = Inr response \<Longrightarrow> \<not> ok response \<Longrightarrow>
     fetchDescriptionFromRSS fs url = Inl (unavailableMessage url)"
  by (simp add: fetchDescriptionFromRSS_def fetchDescriptionTry_def)

lemma fetchStoryElements_cases:
  "fetchStoryElements fs now =
     (if failingFeeds fs now = []
      then Inr \<lparr>characters = projr (fetchDescriptionFromRSS fs
                   (feedUrl (getDailyVariable now) ''characters'')),
                 story = projr (fetchDescriptionFromRSS fs
                   (feedUrl (getDailyVariable now) ''story'')),
                 today = projr (fetchDescriptionFromRSS fs
                   (feedUrl (getDailyVariable now) ''today''))\<rparr>
      else Inl (detailedErrorMessage
             (map (\<lambda>name. failedFeedEntry name
                     (unavailableMessage (feedUrl (getDailyVariable now) name)))
                (failingFeeds fs now))))"
  using fetchDescriptionFromRSS_cases [of fs "feedUrl (getDailyVariable now) ''characters''"]
    fetchDescriptionFromRSS_cases [of fs "feedUrl (getDailyVariable now) ''story''"]
    fetchDescriptionFromRSS_cases [of fs "feedUrl (getDailyVariable now) ''today''"]
  by (elim disjE exE) (simp_all add: fetch_simps)

lemma failingFeeds_empty_iff:
  "failingFeeds fs now = [] \<longleftrightarrow>
     (\<forall>name \<in> set feedNames. \<exists>v.
        fetchDescriptionFromRSS fs (feedUrl (getDailyVariable now) name) = Inr v)"
  by (cases "fetchDescriptionFromRSS fs (feedUrl (getDailyVariable now) ''characters'')";
      cases "fetchDescriptionFromRSS fs (feedUrl (getDailyVariable now) ''story'')";
      cases "fetchDescriptionFromRSS fs (feedUrl (getDailyVariable now) ''today'')")
    (simp_all add: fetch_simps)


lemma getDailyVariable_epoch: "getDailyVariable 0 = ''22''"
  by (simp add: getDailyVariable_def getUTCDay_def dayNames_def dayMap_def Let_def)

lemma encodeURIComponent_append:
  "encodeURIComponent (a @ b) = encodeURIComponent a @ encodeURIComponent b"
  by (simp add: encodeURIComponent_def)

lemma encodeURIComponent_names:
  "encodeURIComponent ''characters'' = ''characters''"
  "encodeURIComponent ''story'' = ''story''"
  "encodeURIComponent ''today'' = ''today''"
  by (simp_all add: encodeURIComponent_def isUnreserved_def isAlphaNumeric_def)

lemma proxied_feedUrl_eq:
  "encodeURIComponent (feedUrl x a) = encodeURIComponent (feedUrl x b)
     \<longleftrightarrow> encodeURIComponent a @ encodeURIComponent ''&opts=16798&mod=$1$wq1rdBcg$ir4fsMQfu76bjx/maFJMv/''
         = encodeURIComponent b @ encodeURIComponent ''&opts=16798&mod=$1$wq1rdBcg$ir4fsMQfu76bjx/maFJMv/''"
  by (simp only: feedUrl_def encodeURIComponent_append same_append_eq)

lemma fetch_todayUnavailable:
  "fetch todayUnavailable (CORS_PROXY @ encodeURIComponent (feedUrl ''22'' ''characters''))
     = Inr \<lparr>ok = True, status = 200, responseText = Inr feedXml\<rparr>"
  "fetch todayUnavailable (CORS_PROXY @ encodeURIComponent (feedUrl ''22'' ''story''))
     = Inr \<lparr>ok = True, status = 200, responseText = Inr feedXml\<rparr>"
  "fetch todayUnavailable (CORS_PROXY @ encodeURIComponent (feedUrl ''22'' ''today''))
     = Inr \<lparr>ok = False, status = 503, responseText = Inr ''Service Unavailable''\<rparr>"
  by (simp_all add: todayUnavailable_def proxied_feedUrl_eq encodeURIComponent_names)

lemma findSeed_todayUnavailable:
  "findSeed todayUnavailable [Some ''A saucer crew looks for a parking space.'']
     = Some ''A saucer crew looks for a parking space.''"
  by (simp add: todayUnavailable_def trim_def isWhiteSpace_def Let_def)

lemma fetchDescriptionFromRSS_todayUnavailable:
  "fetchDescriptionFromRSS todayUnavailable (feedUrl ''22'' ''characters'')
     = Inr ''A saucer crew looks for a parking space.''"
  "fetchDescriptionFromRSS todayUnavailable (feedUrl ''22'' ''story'')
     = Inr ''A saucer crew looks for a parking space.''"
  "fetchDescriptionFromRSS todayUnavailable (feedUrl ''22'' ''today'')
     = Inl (unavailableMessage (feedUrl ''22'' ''today''))"
    apply (simp_all add: fetchDescriptionFromRSS_def fetchDescriptionTry_def fetch_todayUnavailable
      del: findSeed.simps)
    apply (simp_all add: todayUnavailable_def findSeed_todayUnavailable [unfolded todayUnavailable_def] del: findSeed.simps)
  done

lemma message_today:
  "detailedErrorMessage [failedFeedEntry ''today'' (unavailableMessage (feedUrl ''22'' ''today''))]
     = ''Could not fetch all story elements. Please check your connection or try again later. ''
       @ ''\<newline>\<newline>Failed feeds:\<newline>- '' @ [CHR 0x27] @ ''Today'' @ [CHR 0x27]
       @ '' feed: Could not fetch or parse from ''
       @ ''https://www.htmlcommentbox.com/rss_clean?page=https%3A%2F%2Fvgy.rf.gd%2F22%2F%3Fi%3Dtoday''
       @ ''&opts=16798&mod=$1$wq1rdBcg$ir4fsMQfu76bjx/maFJMv/''
       @ ''. The source might be unavailable or blocked.''"
  by (simp add: detailedErrorMessage_def failedFeedEntry_def capitalize_def toUpperCase_def
      toUpperCaseChar_def unavailableMessage_def feedUrl_def)

lemma no_status_in_message:
  "\<not> occursIn ''503''
    (''Could not fetch all story elements. Please check your connection or try again later. ''
       @ ''\<newline>\<newline>Failed feeds:\<newline>- '' @ [CHR 0x27] @ ''Today'' @ [CHR 0x27]
       @ '' feed: Could not fetch or parse from ''
       @ ''https://www.htmlcommentbox.com/rss_clean?page=https%3A%2F%2Fvgy.rf.gd%2F22%2F%3Fi%3Dtoday''
       @ ''&opts=16798&mod=$1$wq1rdBcg$ir4fsMQfu76bjx/maFJMv/''
       @ ''. The source might be unavailable or blocked.'')"
  by simp

lemma decimal_503: "decimal 503 = ''503''"
  by (simp add: decimal.simps [of 503] decimal.simps [of 50] decimal.simps [of 5] digitChar_def
      del: decimal.simps)

lemma failingFeeds_todayUnavailable: "failingFeeds todayUnavailable 0 = [''today'']"
  by (simp add: failingFeeds_def feedNames_def getDailyVariable_epoch
      fetchDescriptionFromRSS_todayUnavailable)

text \<open>
  C5 (as amended). Fetching the story elements fails exactly when at least one of the three
  feeds fails. The message of the failure is the fixed introduction followed by one entry per
  failed feed, in feed order, each of the form \<open>'Name' feed: reason\<close> with the capitalised
  feed name; the reason is the message that \<open>fetchDescriptionFromRSS\<close> gives to every
  failure, \<open>Could not fetch or parse from\<close> the URL of the feed, and not what went wrong
  inside it. When all three feeds answer, their three values are returned. When characters
  and story answer and the request for today is answered with a status that is not ok (such
  as 503), the message has the single entry of today with that reason.
\<close>

theorem fetchStoryElements_aggregate:
  "((\<exists>e. fetchStoryElements fs now = Inl e) \<longleftrightarrow>
      (\<exists>name \<in> set feedNames. \<exists>reason.
         fetchDescriptionFromRSS fs (feedUrl (getDailyVariable now) name) = Inl reason))
   \<and> (\<forall>e. fetchStoryElements fs now = Inl e \<longrightarrow>
         e = detailedErrorMessage
               (map (\<lambda>name. failedFeedEntry name
                       (unavailableMessage (feedUrl (getDailyVariable now) name)))
                  (failingFeeds fs now)))
   \<and> (\<forall>c s t.
         fetchDescriptionFromRSS fs (feedUrl (getDailyVariable now) ''characters'') = Inr c
         \<and> fetchDescriptionFromRSS fs (feedUrl (getDailyVariable now) ''story'') = Inr s
         \<and> fetchDescriptionFromRSS fs (feedUrl (getDailyVariable now) ''today'') = Inr t \<longrightarrow>
         fetchStoryElements fs now = Inr \<lparr>characters = c, story = s, today = t\<rparr>)
   \<and> (\<forall>c s response.
         fetchDescriptionFromRSS fs (feedUrl (getDailyVariable now) ''characters'') = Inr c
         \<and> fetchDescriptionFromRSS fs (feedUrl (getDailyVariable now) ''story'') = Inr s
         \<and> fetch fs (CORS_PROXY @ encodeURIComponent (feedUrl (getDailyVariable now) ''today''))
             = Inr response
         \<and> \<not> ok response \<longrightarrow>
         failingFeeds fs now = [''today'']
         \<and> fetchStoryElements fs now
             = Inl (detailedErrorMessage
                 [failedFeedEntry ''today''
                    (unavailableMessage (feedUrl (getDailyVariable now) ''today''))]))"
proof (intro conjI allI impI)
  let ?x = "getDailyVariable now"
  show "(\<exists>e. fetchStoryElements fs now = Inl e) \<longleftrightarrow>
      (\<exists>name \<in> set feedNames. \<exists>reason. fetchDescriptionFromRSS fs (feedUrl ?x name) = Inl reason)"
  proof -
    have "(\<exists>e. fetchStoryElements fs now = Inl e) \<longleftrightarrow> failingFeeds fs now \<noteq> []"
      by (simp add: fetchStoryElements_cases)
    also have "\<dots> \<longleftrightarrow> (\<exists>name \<in> set feedNames.
        \<not> (\<exists>v. fetchDescriptionFromRSS fs (feedUrl ?x name) = Inr v))"
      by (simp add: failingFeeds_empty_iff)
    also have "\<dots> \<longleftrightarrow> (\<exists>name \<in> set feedNames. \<exists>reason.
        fetchDescriptionFromRSS fs (feedUrl ?x name) = Inl reason)"
      by (metis sum.exhaust sum.distinct(1))
    finally show ?thesis .
  qed
  show "e = detailedErrorMessage
               (map (\<lambda>name. failedFeedEntry name (unavailableMessage (feedUrl ?x name)))
                  (failingFeeds fs now))"
    if "fetchStoryElements fs now = Inl e" for e
    using that by (simp add: fetchStoryElements_cases split: if_splits)
  show "fetchStoryElements fs now = Inr \<lparr>characters = c, story = s, today = t\<rparr>"
    if "fetchDescriptionFromRSS fs (feedUrl ?x ''characters'') = Inr c
         \<and> fetchDescriptionFromRSS fs (feedUrl ?x ''story'') = Inr s
         \<and> fetchDescriptionFromRSS fs (feedUrl ?x ''today'') = Inr t" for c s t
    using that by (simp add: fetch_simps)
  show "failingFeeds fs now = [''today'']"
    if "fetchDescriptionFromRSS fs (feedUrl ?x ''characters'') = Inr c
         \<and> fetchDescriptionFromRSS fs (feedUrl ?x ''story'') = Inr s
         \<and> fetch fs (CORS_PROXY @ encodeURIComponent (feedUrl ?x ''today'')) = Inr response
         \<and> \<not> ok response" for c s response
    using that fetchDescriptionFromRSS_not_ok [of fs "feedUrl ?x ''today''" response]
    by (simp add: fetch_simps)
  show "fetchStoryElements fs now
             = Inl (detailedErrorMessage
                 [failedFeedEntry ''today'' (unavailableMessage (feedUrl ?x ''today''))])"
    if "fetchDescriptionFromRSS fs (feedUrl ?x ''characters'') = Inr c
         \<and> fetchDescriptionFromRSS fs (feedUrl ?x ''story'') = Inr s
         \<and> fetch fs (CORS_PROXY @ encodeURIComponent (feedUrl ?x ''today'')) = Inr response
         \<and> \<not> ok response" for c s response
    using that fetchDescriptionFromRSS_not_ok [of fs "feedUrl ?x ''today''" response]
    by (simp add: fetch_simps)
qed

theorem fetchStoryElements_aggregate_witness:
  "fetchDescriptionFromRSS todayUnavailable (feedUrl (getDailyVariable 0) ''characters'')
     = Inr ''A saucer crew looks for a parking space.''
   \<and> fetchDescriptionFromRSS todayUnavailable (feedUrl (getDailyVariable 0) ''story'')
     = Inr ''A saucer crew looks for a parking space.''
   \<and> fetch todayUnavailable
        (CORS_PROXY @ encodeURIComponent (feedUrl (getDailyVariable 0) ''today''))
     = Inr \<lparr>ok = False, status = 503, responseText = Inr ''Service Unavailable''\<rparr>
   \<and> failingFeeds todayUnavailable 0 = [''today'']
   \<and> fetchStoryElements todayUnavailable 0
     = Inl (detailedErrorMessage
         [[CHR 0x27] @ ''Today'' @ [CHR 0x27] @ '' feed: ''
            @ unavailableMessage (feedUrl ''22'' ''today'')])"
proof -
  have entry: "failedFeedEntry ''today'' r = [CHR 0x27] @ ''Today'' @ [CHR 0x27] @ '' feed: '' @ r"
    for r
    by (simp add: failedFeedEntry_def capitalize_def toUpperCase_def toUpperCaseChar_def)
  from fetchStoryElements_aggregate [of todayUnavailable 0]
    fetchDescriptionFromRSS_todayUnavailable fetch_todayUnavailable
  have "failingFeeds todayUnavailable 0 = [''today'']"
    and "fetchStoryElements todayUnavailable 0
      = Inl (detailedErrorMessage
          [failedFeedEntry ''today'' (unavailableMessage (feedUrl (getDailyVariable 0) ''today''))])"
    by (simp_all add: getDailyVariable_epoch)
  then show ?thesis
    using fetchDescriptionFromRSS_todayUnavailable fetch_todayUnavailable
    by (simp only: getDailyVariable_epoch entry simp_thms)
qed

text \<open>
  The claim as written fails: when the request for today is answered with the status 503
  (on a Wednesday, Pacific time) and the other two feeds answer, the error thrown inside
  \<open>fetchDescriptionFromRSS\<close> names the status, the message that \<open>fetchStoryElements\<close> surfaces
  has the single entry of today, and \<open>503\<close> occurs nowhere in it.
\<close>

theorem fetchStoryElements_status_counterexample:
  "getDailyVariable 0 = ''22''
   \<and> fetchDescriptionFromRSS todayUnavailable (feedUrl ''22'' ''characters'')
     = Inr ''A saucer crew looks for a parking space.''
   \<and> fetchDescriptionFromRSS todayUnavailable (feedUrl ''22'' ''story'')
     = Inr ''A saucer crew looks for a parking space.''
   \<and> fetch todayUnavailable (CORS_PROXY @ encodeURIComponent (feedUrl ''22'' ''today''))
     = Inr \<lparr>ok = False, status = 503, responseText = Inr ''Service Unavailable''\<rparr>
   \<and> fetchDescriptionTry todayUnavailable (feedUrl ''22'' ''today'')
     = Inl ''Network response was not ok, status: 503''
   \<and> fetchStoryElements todayUnavailable 0
     = Inl (''Could not fetch all story elements. Please check your connection or try again later. ''
       @ ''\<newline>\<newline>Failed feeds:\<newline>- '' @ [CHR 0x27] @ ''Today'' @ [CHR 0x27]
       @ '' feed: Could not fetch or parse from ''
       @ ''https://www.htmlcommentbox.com/rss_clean?page=https%3A%2F%2Fvgy.rf.gd%2F22%2F%3Fi%3Dtoday''
       @ ''&opts=16798&mod=$1$wq1rdBcg$ir4fsMQfu76bjx/maFJMv/''
       @ ''. The source might be unavailable or blocked.'')
   \<and> \<not> occursIn ''503''
       (''Could not fetch all story elements. Please check your connection or try again later. ''
       @ ''\<newline>\<newline>Failed feeds:\<newline>- '' @ [CHR 0x27] @ ''Today'' @ [CHR 0x27]
       @ '' feed: Could not fetch or parse from ''
       @ ''https://www.htmlcommentbox.com/rss_clean?page=https%3A%2F%2Fvgy.rf.gd%2F22%2F%3Fi%3Dtoday''
       @ ''&opts=16798&mod=$1$wq1rdBcg$ir4fsMQfu76bjx/maFJMv/''
       @ ''. The source might be unavailable or blocked.'')"
proof -
  have "fetchStoryElements todayUnavailable 0
      = Inl (detailedErrorMessage
          [failedFeedEntry ''today'' (unavailableMessage (feedUrl ''22'' ''today''))])"
    by (simp add: fetchStoryElements_cases failingFeeds_todayUnavailable getDailyVariable_epoch)
  moreover have "fetchDescriptionTry todayUnavailable (feedUrl ''22'' ''today'')
     = Inl ''Network response was not ok, status: 503''"
    by (simp add: fetchDescriptionTry_def fetch_todayUnavailable decimal_503)
  ultimately show ?thesis
    using no_status_in_message fetchDescriptionFromRSS_todayUnavailable(1,2)
      fetch_todayUnavailable(3) getDailyVariable_epoch
    by (simp only: message_today simp_thms)
qed

end
